theory Spec2Isabelle
  imports Complex_Main "HOL-Library.Stream"
begin

section \<open>Aim trainer: shot resolution, target kinematics and session analysis\<close>

text \<open>
  The development embeds \<^verbatim>\<open>src/components/Game3D.tsx\<close> (the game controller: spawning,
  the per-frame bounce, \<^verbatim>\<open>handleShoot\<close>, the countdown) and the results, types and
  application files (\<^verbatim>\<open>analysis\<close>, \<^verbatim>\<open>handleGameFinish\<close>).

  Numbers. A JavaScript \<^verbatim>\<open>number\<close> is rendered as a \<^typ>\<open>real\<close>; except in the last
  section of the definitions, which rounds the pass over the targets, arithmetic is exact,
  there is no rounding, no \<^verbatim>\<open>NaN\<close> and no infinity (the one \<^verbatim>\<open>Infinity\<close> of the source,
  the start value of \<^verbatim>\<open>minAngularDist\<close>, is \<^term>\<open>None :: real option\<close>). Counters and
  timestamps are natural numbers. An optional field of an interface is an \<^typ>\<open>'a option\<close>,
  \<^verbatim>\<open>undefined\<close> being \<^term>\<open>None\<close>.

  Effects. \<^verbatim>\<open>Math.random()\<close> reads the head of a stream of draws and leaves its tail; a
  draw comes with its value and with the string that the engine prints for it in base 36;
  \<^verbatim>\<open>Date.now()\<close>, the camera and the ray of the raycaster are inputs of the event that
  reads them. The React state \<^verbatim>\<open>targets\<close> and its mirror \<^verbatim>\<open>targetsRef\<close> are one field.
\<close>

subsection \<open>Vectors (three.js \<^verbatim>\<open>Vector3\<close>, over the reals)\<close>

type_synonym vec3 = "real \<times> real \<times> real"

fun sub :: "vec3 \<Rightarrow> vec3 \<Rightarrow> vec3" where
  "sub (ax, ay, az) (bx, by, bz) = (ax - bx, ay - by, az - bz)"

fun add :: "vec3 \<Rightarrow> vec3 \<Rightarrow> vec3" where
  "add (ax, ay, az) (bx, by, bz) = (ax + bx, ay + by, az + bz)"

fun multiplyScalar :: "vec3 \<Rightarrow> real \<Rightarrow> vec3" where
  "multiplyScalar (ax, ay, az) s = (ax * s, ay * s, az * s)"

fun dot :: "vec3 \<Rightarrow> vec3 \<Rightarrow> real" where
  "dot (ax, ay, az) (bx, by, bz) = ax * bx + ay * by + az * bz"

definition lengthSq :: "vec3 \<Rightarrow> real" where
  "lengthSq v = dot v v"

definition length_v :: "vec3 \<Rightarrow> real" where
  "length_v v = sqrt (lengthSq v)"

definition distanceTo :: "vec3 \<Rightarrow> vec3 \<Rightarrow> real" where
  "distanceTo a b = sqrt (lengthSq (sub a b))"

text \<open>\<^verbatim>\<open>normalize()\<close> is \<^verbatim>\<open>divideScalar(this.length() || 1)\<close>: the zero vector stays zero.\<close>

definition normalize :: "vec3 \<Rightarrow> vec3" where
  "normalize v = multiplyScalar v (1 / (if length_v v = 0 then 1 else length_v v))"

definition clamp :: "real \<Rightarrow> real \<Rightarrow> real \<Rightarrow> real" where
  "clamp v lo hi = max lo (min hi v)"

text \<open>\<^verbatim>\<open>angleTo\<close>: a right angle when either vector is zero, else the arc cosine of the
  clamped normalised dot product.\<close>

definition angleTo :: "vec3 \<Rightarrow> vec3 \<Rightarrow> real" where
  "angleTo a b =
     (let denominator = sqrt (lengthSq a * lengthSq b)
      in if denominator = 0 then pi / 2
         else arccos (clamp (dot a b / denominator) (- 1) 1))"

subsection \<open>Types (\<^verbatim>\<open>types.ts\<close>)\<close>

datatype ScenarioType = GRIDSHOT | TRACKING | FLICKING

record ShotData =
  timestamp :: nat
  hit :: bool
  targetId :: "string option"
  relativeX :: "real option"
  relativeY :: "real option"
  distanceFromCenter :: "real option"
  targetVelocityX :: "real option"

record SessionStats =
  score :: nat
  shotsFired :: nat
  shotsHit :: nat
  accuracy :: real
  avgTimeOnTarget :: "real option"
  missData :: "ShotData list"
  scenario :: ScenarioType
  sensitivity :: real

text \<open>The field \<^verbatim>\<open>id\<close> is \<open>id'\<close> here, \<^term>\<open>id\<close> being the identity function of HOL.\<close>

record TargetEntity =
  id' :: string
  position :: vec3
  active :: bool
  velocity :: vec3
  radius :: real

subsection \<open>The random source and the identifier of a target\<close>

text \<open>
  \<^verbatim>\<open>Math.random().toString(36).substr(2, 9)\<close>. The number that \<^verbatim>\<open>Math.random()\<close> returns
  and the string that \<^verbatim>\<open>Number.prototype.toString(36)\<close> prints for it are the engine's, not
  the repository's (the engine prints the shortest digits that read back as the same
  double, the last of them rounded): a draw is given with both, the field \<open>number\<close> for
  the arithmetic and the field \<open>toString36\<close> for the identifier.
\<close>

record draw =
  number :: real
  toString36 :: string

definition substr :: "string \<Rightarrow> nat \<Rightarrow> nat \<Rightarrow> string" where
  "substr s start len = take len (drop start s)"

subsection \<open>Spawning (\<^verbatim>\<open>spawnTarget\<close>)\<close>

text \<open>
  The draws are taken in the order in which the source evaluates them: the identifier,
  then (without a fixed position) x, y and z, then (for tracking) the sign and the speed.
  The result is the new target, the list with the target pushed at its end, and the rest
  of the random stream. The props \<^verbatim>\<open>scenario\<close> and \<^verbatim>\<open>sensitivity\<close> of the controller, which
  its inner functions close over, are the parameters \<open>scn\<close> and \<open>sens\<close> of each of them.
\<close>

definition spawnTarget ::
  "ScenarioType \<Rightarrow> real \<Rightarrow> TargetEntity list \<Rightarrow> vec3 option \<Rightarrow> draw stream
     \<Rightarrow> TargetEntity \<times> TargetEntity list \<times> draw stream" where
  "spawnTarget scn sens currentList fixedPos rs =
     (let ident = substr (toString36 (shd rs)) 2 9;
          rs1 = stl rs;
          (x, rs2) = (case fixedPos of Some p \<Rightarrow> (fst p, rs1)
                      | None \<Rightarrow> ((number (shd rs1) - 0.5) * 10, stl rs1));
          (y, rs3) = (case fixedPos of Some p \<Rightarrow> (fst (snd p), rs2)
                      | None \<Rightarrow> (1 + number (shd rs2) * 3, stl rs2));
          (z, rs4) = (case fixedPos of Some p \<Rightarrow> (snd (snd p), rs3)
                      | None \<Rightarrow> (- 8 - number (shd rs3) * 5, stl rs3));
          (vel, rs5) =
            (if scn = TRACKING
             then (((if number (shd rs4) > 0.5 then 1 else - 1)
                      * (2 + number (shd (stl rs4)) * 2), 0, 0),
                   stl (stl rs4))
             else ((0, 0, 0), rs4));
          newTarget = \<lparr> id' = ident, position = (x, y, z), active = True,
                        velocity = vel,
                        radius = (if scn = FLICKING then 0.3 else 0.5) \<rparr>
      in (newTarget, currentList @ [newTarget], rs5))"

subsection \<open>The game loop (\<^verbatim>\<open>useFrame\<close>): the bounce of one target and of all\<close>

definition bounce :: "real \<Rightarrow> TargetEntity \<Rightarrow> TargetEntity" where
  "bounce delta t =
     (let newX = fst (position t) + fst (velocity t) * delta;
          velX = fst (velocity t)
      in if newX > 8 \<or> newX < - 8
         then t \<lparr> position := (fst (position t) + (velX * - 1) * delta,
                                fst (snd (position t)), snd (snd (position t))),
                  velocity := (velX * - 1, fst (snd (velocity t)), snd (snd (velocity t))) \<rparr>
         else t \<lparr> position := (newX, fst (snd (position t)), snd (snd (position t))),
                  velocity := (velX, fst (snd (velocity t)), snd (snd (velocity t))) \<rparr>)"

definition useFrame ::
  "ScenarioType \<Rightarrow> real \<Rightarrow> real \<Rightarrow> TargetEntity list \<Rightarrow> TargetEntity list" where
  "useFrame scn sens delta targets =
     (if scn = TRACKING then map (bounce delta) targets else targets)"

subsection \<open>Camera, ray and plane (three.js, over the reals)\<close>

text \<open>
  What \<^verbatim>\<open>handleShoot\<close> reads of the camera: its position, \<^verbatim>\<open>getWorldDirection\<close>, and the
  images of \<open>(1, 0, 0)\<close> and \<open>(0, 1, 0)\<close> under \<^verbatim>\<open>applyQuaternion(camera.quaternion)\<close>. The
  ray is \<^verbatim>\<open>raycaster.ray\<close> after \<^verbatim>\<open>setFromCamera\<close>: \<^verbatim>\<open>handleShoot\<close> reads it from the raycaster,
  not from the camera, and it is an input of its own. The hit test and the choice of the
  intended target use the position and the direction of the camera; the ray is used for
  the projection of a miss only.
\<close>

record camera =
  cameraPosition :: vec3
  worldDirection :: vec3
  localRight :: vec3
  localUp :: vec3

record ray =
  origin :: vec3
  direction :: vec3

record plane =
  normal :: vec3
  constant' :: real

definition setFromNormalAndCoplanarPoint :: "vec3 \<Rightarrow> vec3 \<Rightarrow> plane" where
  "setFromNormalAndCoplanarPoint n point = \<lparr> normal = n, constant' = - dot point n \<rparr>"

definition distanceToPoint :: "plane \<Rightarrow> vec3 \<Rightarrow> real" where
  "distanceToPoint pl point = dot (normal pl) point + constant' pl"

text \<open>\<^verbatim>\<open>Ray.distanceToPlane\<close>: \<^verbatim>\<open>null\<close> for a ray parallel to the plane and off it, and for
  a plane behind the ray; the origin (distance 0) for a ray lying in the plane.\<close>

definition distanceToPlane :: "ray \<Rightarrow> plane \<Rightarrow> real option" where
  "distanceToPlane r pl =
     (let denominator = dot (normal pl) (direction r)
      in if denominator = 0
         then (if distanceToPoint pl (origin r) = 0 then Some 0 else None)
         else (let t = - (dot (origin r) (normal pl) + constant' pl) / denominator
               in if t \<ge> 0 then Some t else None))"

definition ray_at :: "ray \<Rightarrow> real \<Rightarrow> vec3" where
  "ray_at r t = add (origin r) (multiplyScalar (direction r) t)"

text \<open>\<^verbatim>\<open>Ray.intersectPlane(plane, target)\<close> returns \<^verbatim>\<open>null\<close> and leaves \<^verbatim>\<open>target\<close> as it
  was, or writes the point into \<^verbatim>\<open>target\<close> and returns it.\<close>

definition intersectPlane :: "ray \<Rightarrow> plane \<Rightarrow> vec3 option" where
  "intersectPlane r pl = map_option (ray_at r) (distanceToPlane r pl)"

text \<open>An object is truthy in a JavaScript condition, whatever its fields hold.\<close>

definition truthy :: "vec3 \<Rightarrow> bool" where
  "truthy v = True"

subsection \<open>The pass over the targets in \<^verbatim>\<open>handleShoot\<close>\<close>

record locals =
  hitFound :: bool
  hitTargetId :: string
  closestTarget :: "TargetEntity option"
  minAngularDist :: "real option"

text \<open>\<^verbatim>\<open>angle < minAngularDist\<close>, with \<^term>\<open>None\<close> for \<^verbatim>\<open>Infinity\<close>.\<close>

fun less_inf :: "real \<Rightarrow> real option \<Rightarrow> bool" where
  "less_inf a None = True"
| "less_inf a (Some m) = (a < m)"

definition distToCenter :: "camera \<Rightarrow> TargetEntity \<Rightarrow> real" where
  "distToCenter cam target =
     (let rayDir = worldDirection cam;
          targetPos = position target;
          toTarget = sub targetPos (cameraPosition cam);
          projectionLength = dot toTarget rayDir;
          closestPointOnRay = add (cameraPosition cam) (multiplyScalar rayDir projectionLength)
      in distanceTo closestPointOnRay targetPos)"

definition angleToTarget :: "camera \<Rightarrow> TargetEntity \<Rightarrow> real" where
  "angleToTarget cam target =
     (let rayDir = worldDirection cam;
          toTarget = sub (position target) (cameraPosition cam)
      in angleTo rayDir (normalize toTarget))"

text \<open>The body of \<^verbatim>\<open>activeTargets.forEach\<close>: the hit test, which overwrites
  \<^verbatim>\<open>hitTargetId\<close>, then the running minimum of the angle.\<close>

definition checkTarget :: "camera \<Rightarrow> locals \<Rightarrow> TargetEntity \<Rightarrow> locals" where
  "checkTarget cam l target =
     (let l1 = (if distToCenter cam target < radius target
                then l \<lparr> hitFound := True, hitTargetId := id' target \<rparr> else l)
      in if less_inf (angleToTarget cam target) (minAngularDist l1)
         then l1 \<lparr> minAngularDist := Some (angleToTarget cam target),
                   closestTarget := Some target \<rparr>
         else l1)"

definition checkHits :: "camera \<Rightarrow> TargetEntity list \<Rightarrow> locals" where
  "checkHits cam activeTargets =
     foldl (checkTarget cam)
       \<lparr> hitFound = False, hitTargetId = '''', closestTarget = None, minAngularDist = None \<rparr>
       activeTargets"

subsection \<open>The state of the controller and \<^verbatim>\<open>handleShoot\<close>\<close>

record game =
  targets :: "TargetEntity list"
  scoreRef :: nat
  shotsFiredRef :: nat
  shotDataRef :: "ShotData list"
  timeLeft :: nat
  rng :: "draw stream"

definition hitRecord :: "nat \<Rightarrow> string \<Rightarrow> ShotData" where
  "hitRecord now tid =
     \<lparr> timestamp = now, hit = True, targetId = Some tid, relativeX = None, relativeY = None,
       distanceFromCenter = None, targetVelocityX = None \<rparr>"

definition missRecord :: "nat \<Rightarrow> camera \<Rightarrow> vec3 \<Rightarrow> TargetEntity \<Rightarrow> ShotData" where
  "missRecord now cam intersection ct =
     (let diff = sub intersection (position ct)
      in \<lparr> timestamp = now, hit = False, targetId = None,
           relativeX = Some (dot diff (localRight cam)),
           relativeY = Some (dot diff (localUp cam)),
           distanceFromCenter = Some (length_v diff),
           targetVelocityX = Some (fst (velocity ct)) \<rparr>)"

definition bareMissRecord :: "nat \<Rightarrow> ShotData" where
  "bareMissRecord now =
     \<lparr> timestamp = now, hit = False, targetId = None, relativeX = None, relativeY = None,
       distanceFromCenter = None, targetVelocityX = None \<rparr>"

text \<open>
  \<^verbatim>\<open>intersection\<close> is a fresh zero vector, which \<^verbatim>\<open>intersectPlane\<close> overwrites when the
  ray meets the plane; the value it returns is dropped, and the condition that follows
  tests the vector itself. That condition has no else branch.
\<close>

definition handleShoot ::
  "ScenarioType \<Rightarrow> real \<Rightarrow> camera \<Rightarrow> ray \<Rightarrow> nat \<Rightarrow> game \<Rightarrow> game" where
  "handleShoot scn sens cam r now g =
     (let g1 = g \<lparr> shotsFiredRef := shotsFiredRef g + 1 \<rparr>;
          activeTargets = targets g1;
          l = checkHits cam activeTargets
      in if hitFound l
         then (let g2 = g1 \<lparr> scoreRef := scoreRef g1 + 1,
                              shotDataRef := shotDataRef g1 @ [hitRecord now (hitTargetId l)] \<rparr>;
                   newTargets = filter (\<lambda>t. id' t \<noteq> hitTargetId l) activeTargets;
                   (nt, newTargets', rs') = spawnTarget scn sens newTargets None (rng g2)
               in g2 \<lparr> targets := newTargets', rng := rs' \<rparr>)
         else (case closestTarget l of
                 Some ct \<Rightarrow>
                   (let targetPos = position ct;
                        pl = setFromNormalAndCoplanarPoint (worldDirection cam) targetPos;
                        intersection = (case intersectPlane r pl of
                                          None \<Rightarrow> (0, 0, 0) | Some p \<Rightarrow> p)
                    in if truthy intersection
                       then g1 \<lparr> shotDataRef :=
                                   shotDataRef g1 @ [missRecord now cam intersection ct] \<rparr>
                       else g1)
               | None \<Rightarrow> g1 \<lparr> shotDataRef := shotDataRef g1 @ [bareMissRecord now] \<rparr>))"

subsection \<open>Mounting, the countdown and the end of the session\<close>

definition mount :: "ScenarioType \<Rightarrow> real \<Rightarrow> draw stream \<Rightarrow> game" where
  "mount scn sens rs =
     (let (initialTargets, rs') =
            (if scn = GRIDSHOT
             then (let (t1, l1, r1) = spawnTarget scn sens [] None rs;
                       (t2, l2, r2) = spawnTarget scn sens l1 None r1;
                       (t3, l3, r3) = spawnTarget scn sens l2 None r2
                   in (l3, r3))
             else if scn = TRACKING
             then (let (t1, l1, r1) = spawnTarget scn sens [] (Some (0, 1.5, - 10)) rs
                   in (l1, r1))
             else (let (t1, l1, r1) = spawnTarget scn sens [] None rs in (l1, r1)))
      in \<lparr> targets = initialTargets, scoreRef = 0, shotsFiredRef = 0, shotDataRef = [],
           timeLeft = 30, rng = rs' \<rparr>)"

text \<open>\<^verbatim>\<open>handleGameFinish\<close> of the application, which closes over its \<^verbatim>\<open>scenario\<close> and
  \<^verbatim>\<open>sensitivity\<close>.\<close>

definition handleGameFinish ::
  "ScenarioType \<Rightarrow> real \<Rightarrow> nat \<Rightarrow> nat \<Rightarrow> nat \<Rightarrow> ShotData list \<Rightarrow> SessionStats" where
  "handleGameFinish scn sens sc fired nhit md =
     \<lparr> score = sc, shotsFired = fired, shotsHit = nhit,
       accuracy = (if fired > 0 then (real nhit / real fired) * 100 else 0),
       avgTimeOnTarget = None, missData = md, scenario = scn, sensitivity = sens \<rparr>"

text \<open>One firing of the interval timer: at the last second \<^verbatim>\<open>onFinish\<close> receives the score
  counter twice, as the score and as the number of hits.\<close>

definition timerTick ::
  "ScenarioType \<Rightarrow> real \<Rightarrow> game \<Rightarrow> game \<times> SessionStats option" where
  "timerTick scn sens g =
     (if timeLeft g \<le> 1
      then (g \<lparr> timeLeft := 0 \<rparr>,
            Some (handleGameFinish scn sens (scoreRef g) (shotsFiredRef g) (scoreRef g)
                    (shotDataRef g)))
      else (g \<lparr> timeLeft := timeLeft g - 1 \<rparr>, None))"

subsection \<open>Sessions as sequences of events\<close>

datatype event = Frame real | MouseDown camera ray nat | Second

fun step :: "ScenarioType \<Rightarrow> real \<Rightarrow> game \<Rightarrow> event \<Rightarrow> game" where
  "step scn sens g (Frame delta) = g \<lparr> targets := useFrame scn sens delta (targets g) \<rparr>"
| "step scn sens g (MouseDown cam r now) = handleShoot scn sens cam r now g"
| "step scn sens g Second = fst (timerTick scn sens g)"

definition run :: "ScenarioType \<Rightarrow> real \<Rightarrow> game \<Rightarrow> event list \<Rightarrow> game" where
  "run scn sens g evs = foldl (step scn sens) g evs"

fun fireTimes :: "event list \<Rightarrow> nat list" where
  "fireTimes [] = []"
| "fireTimes (MouseDown cam r now # evs) = now # fireTimes evs"
| "fireTimes (e # evs) = fireTimes evs"

subsection \<open>The analysis of the results screen\<close>

text \<open>The field \<^verbatim>\<open>top\<close> is \<open>top'\<close> here, \<^term>\<open>top\<close> being the greatest element of a lattice.\<close>

record Analysis =
  left :: nat
  right :: nat
  top' :: nat
  bottom :: nat
  overshoots :: nat
  undershoots :: nat
  recommendation :: string

text \<open>\<^verbatim>\<open>v || 0\<close> on an optional number, and the comparisons of an optional number with
  zero: \<^verbatim>\<open>undefined > 0\<close> and \<^verbatim>\<open>undefined < 0\<close> are both false.\<close>

fun orZero :: "real option \<Rightarrow> real" where
  "orZero None = 0"
| "orZero (Some v) = v"

fun gt0 :: "real option \<Rightarrow> bool" where
  "gt0 None = False"
| "gt0 (Some v) = (v > 0)"

fun lt0 :: "real option \<Rightarrow> bool" where
  "lt0 None = False"
| "lt0 (Some v) = (v < 0)"

definition analysis :: "SessionStats \<Rightarrow> Analysis" where
  "analysis stats =
     (let misses = filter (\<lambda>s. \<not> hit s) (missData stats);
          totalMisses = length misses
      in if totalMisses = 0
         then \<lparr> left = 0, right = 0, top' = 0, bottom = 0, overshoots = 0, undershoots = 0,
                recommendation = ''Perfect run! Your sensitivity is well-tuned.'' \<rparr>
         else
          (let leftN = length (filter (\<lambda>m. orZero (relativeX m) < 0) misses);
               rightN = length (filter (\<lambda>m. orZero (relativeX m) > 0) misses);
               topN = length (filter (\<lambda>m. orZero (relativeY m) > 0) misses);
               bottomN = length (filter (\<lambda>m. orZero (relativeY m) < 0) misses);
               trackingMisses = filter (\<lambda>m. targetVelocityX m \<noteq> None) misses;
               overN = (if scenario stats = TRACKING
                        then length (filter (\<lambda>m.
                               (gt0 (targetVelocityX m) \<and> gt0 (relativeX m)) \<or>
                               (lt0 (targetVelocityX m) \<and> lt0 (relativeX m))) trackingMisses)
                        else 0);
               underN = (if scenario stats = TRACKING
                         then length (filter (\<lambda>m.
                                (gt0 (targetVelocityX m) \<and> lt0 (relativeX m)) \<or>
                                (lt0 (targetVelocityX m) \<and> gt0 (relativeX m))) trackingMisses)
                         else 0);
               recText =
                 (if scenario stats = TRACKING
                  then (if real overN > real underN * 1.5 \<and> overN > 3
                        then ''You consistently OVERSHOOT moving targets. '' @ [CHR 0x0A] @
                             ''Try LOWERING your sensitivity or DPI slightly.''
                        else if real underN > real overN * 1.5 \<and> underN > 3
                        then ''You consistently UNDERSHOOT moving targets. '' @ [CHR 0x0A] @
                             ''Try INCREASING your sensitivity or DPI slightly.''
                        else ''Your aim is balanced. Continue training to build consistency.'')
                  else
                   (let horizontalBias = \<bar>int leftN - int rightN\<bar>;
                        verticalBias = \<bar>int topN - int bottomN\<bar>
                    in if real_of_int horizontalBias > real totalMisses * 0.5
                       then (if leftN > rightN
                             then ''You consistently miss to the LEFT. Check your initial crosshair placement or grip stability.''
                             else ''You consistently miss to the RIGHT. You might be pulling your mouse too fast.'')
                       else if real_of_int verticalBias > real totalMisses * 0.5
                       then ''Significant vertical drift detected. Check your posture and mousepad friction.''
                       else
                        (let avgSpread =
                               foldl (\<lambda>acc m. acc + \<bar>orZero (relativeX m)\<bar>) 0 misses
                                 / real totalMisses
                         in if avgSpread > 1.5
                            then ''Wide horizontal scatter detected. Your sensitivity might be too high for precise micro-adjustments.''
                            else ''Your aim is balanced. Continue training to build consistency.'')))
           in \<lparr> left = leftN, right = rightN, top' = topN, bottom = bottomN,
                overshoots = overN, undershoots = underN, recommendation = recText \<rparr>))"

section \<open>Reference predicates and sample inputs\<close>

text \<open>
  Overshoot and undershoot as the specification words them, on one record: the horizontal
  velocity of the target is defined and the sign of the horizontal offset is the sign of
  that velocity (overshoot) or the opposite sign (undershoot). A record without an offset
  has no sign to compare.
\<close>

definition overshoot_spec :: "ShotData \<Rightarrow> bool" where
  "overshoot_spec m =
     (case targetVelocityX m of None \<Rightarrow> False
      | Some v \<Rightarrow> (case relativeX m of None \<Rightarrow> False
                  | Some x \<Rightarrow> (v > 0 \<and> x > 0) \<or> (v < 0 \<and> x < 0)))"

definition undershoot_spec :: "ShotData \<Rightarrow> bool" where
  "undershoot_spec m =
     (case targetVelocityX m of None \<Rightarrow> False
      | Some v \<Rightarrow> (case relativeX m of None \<Rightarrow> False
                  | Some x \<Rightarrow> (v > 0 \<and> x < 0) \<or> (v < 0 \<and> x > 0)))"

text \<open>The draw one half, which the engine prints as \<^verbatim>\<open>0.i\<close> in base 36, the digit \<^verbatim>\<open>i\<close>
  standing for eighteen.\<close>

definition halfDraw :: draw where
  "halfDraw = \<lparr> number = 0.5, toString36 = ''0.i'' \<rparr>"

text \<open>A tracking session of five shots, each a miss to the right of a target that moves
  to the right.\<close>

definition fiveOvershoots :: SessionStats where
  "fiveOvershoots =
     (let m = \<lparr> timestamp = 0, hit = False, targetId = None, relativeX = Some 0.4,
                 relativeY = Some 0, distanceFromCenter = Some 0.4,
                 targetVelocityX = Some 3 \<rparr>
      in handleGameFinish TRACKING 1 0 5 0 [m, m, m, m, m])"

text \<open>A session of one shot, a hit.\<close>

definition oneHit :: SessionStats where
  "oneHit = handleGameFinish FLICKING 1 1 1 1 [hitRecord 0 ''i'']"

text \<open>The controller at the last second, with three hits in four shots.\<close>

definition lastSecond :: game where
  "lastSecond =
     \<lparr> targets = [], scoreRef = 3, shotsFiredRef = 4,
       shotDataRef = [hitRecord 1 ''a'', hitRecord 2 ''b'', bareMissRecord 3, hitRecord 4 ''c''],
       timeLeft = 1, rng = sconst halfDraw \<rparr>"



text \<open>A camera at the origin that looks up along \<open>(0, 7/25, -24/25)\<close>, its ray, and three
  gridshot targets: A and B on the ray, A the nearer, and C two units beside B.\<close>

definition aimUp :: camera where
  "aimUp = \<lparr> cameraPosition = (0, 0, 0), worldDirection = (0, 7 / 25, - 24 / 25),
             localRight = (1, 0, 0), localUp = (0, 24 / 25, 7 / 25) \<rparr>"

definition aimUpRay :: ray where
  "aimUpRay = \<lparr> origin = (0, 0, 0), direction = (0, 7 / 25, - 24 / 25) \<rparr>"

definition targetA :: TargetEntity where
  "targetA = \<lparr> id' = ''a'', position = (0, 2.8, - 9.6), active = True,
               velocity = (0, 0, 0), radius = 0.5 \<rparr>"

definition targetB :: TargetEntity where
  "targetB = \<lparr> id' = ''b'', position = (0, 3.5, - 12), active = True,
               velocity = (0, 0, 0), radius = 0.5 \<rparr>"

definition targetC :: TargetEntity where
  "targetC = \<lparr> id' = ''c'', position = (2, 3.5, - 12), active = True,
               velocity = (0, 0, 0), radius = 0.5 \<rparr>"

definition threeTargets :: game where
  "threeTargets =
     \<lparr> targets = [targetA, targetB, targetC], scoreRef = 0, shotsFiredRef = 0,
       shotDataRef = [], timeLeft = 30, rng = sconst halfDraw \<rparr>"

text \<open>Translations of a target, of the camera and of the result of the pass over the
  targets by a vector.\<close>

definition translateTarget :: "vec3 \<Rightarrow> TargetEntity \<Rightarrow> TargetEntity" where
  "translateTarget v t = t \<lparr> position := add (position t) v \<rparr>"

definition translateCamera :: "vec3 \<Rightarrow> camera \<Rightarrow> camera" where
  "translateCamera v cam = cam \<lparr> cameraPosition := add (cameraPosition cam) v \<rparr>"

definition translateLocals :: "vec3 \<Rightarrow> locals \<Rightarrow> locals" where
  "translateLocals v l = l \<lparr> closestTarget := map_option (translateTarget v) (closestTarget l) \<rparr>"

text \<open>
  A flicking session with its one target at \<open>(0, 2, -10)\<close>; a camera that looks level
  along \<open>-z\<close> and a ray along \<open>x\<close>, at a right angle to the view direction; and a camera
  turned round, looking along \<open>+z\<close> with its ray, so that the target is behind it.
\<close>

definition flickStart :: game where
  "flickStart =
     \<lparr> targets = [\<lparr> id' = ''i'', position = (0, 2, - 10), active = True,
                    velocity = (0, 0, 0), radius = 0.3 \<rparr>],
       scoreRef = 0, shotsFiredRef = 0, shotDataRef = [], timeLeft = 30,
       rng = sconst halfDraw \<rparr>"

definition levelCamera :: camera where
  "levelCamera = \<lparr> cameraPosition = (0, 0, 0), worldDirection = (0, 0, - 1),
                   localRight = (1, 0, 0), localUp = (0, 1, 0) \<rparr>"

definition sidewaysRay :: ray where
  "sidewaysRay = \<lparr> origin = (0, 0, 0), direction = (1, 0, 0) \<rparr>"

definition backCamera :: camera where
  "backCamera = \<lparr> cameraPosition = (0, 0, 0), worldDirection = (0, 0, 1),
                  localRight = (- 1, 0, 0), localUp = (0, 1, 0) \<rparr>"

definition backRay :: ray where
  "backRay = \<lparr> origin = (0, 0, 0), direction = (0, 0, 1) \<rparr>"

section \<open>The pass over the targets with rounded arithmetic\<close>

text \<open>
  The source computes in binary64. The pass over the targets is given a second time, with
  every operation on numbers followed by a rounding and with the rounded square root and
  arc cosine of the engine; the three are the fields of a parameter. The operations are
  those of three.js in their order: a dot product and a squared length sum the three
  products from the left, \<^verbatim>\<open>normalize\<close> multiplies by the rounded reciprocal of the length,
  a distance is the root of the squared length of the difference. The numbers that come
  in (positions, directions, radii) are taken as they are.
\<close>

record arithmetic =
  rnd :: "real \<Rightarrow> real"
  rsqrt :: "real \<Rightarrow> real"
  racos :: "real \<Rightarrow> real"

fun sub_r :: "arithmetic \<Rightarrow> vec3 \<Rightarrow> vec3 \<Rightarrow> vec3" where
  "sub_r ar (ax, ay, az) (bx, by, bz) =
     (rnd ar (ax - bx), rnd ar (ay - by), rnd ar (az - bz))"

fun add_r :: "arithmetic \<Rightarrow> vec3 \<Rightarrow> vec3 \<Rightarrow> vec3" where
  "add_r ar (ax, ay, az) (bx, by, bz) =
     (rnd ar (ax + bx), rnd ar (ay + by), rnd ar (az + bz))"

fun multiplyScalar_r :: "arithmetic \<Rightarrow> vec3 \<Rightarrow> real \<Rightarrow> vec3" where
  "multiplyScalar_r ar (ax, ay, az) s = (rnd ar (ax * s), rnd ar (ay * s), rnd ar (az * s))"

fun dot_r :: "arithmetic \<Rightarrow> vec3 \<Rightarrow> vec3 \<Rightarrow> real" where
  "dot_r ar (ax, ay, az) (bx, by, bz) =
     rnd ar (rnd ar (rnd ar (ax * bx) + rnd ar (ay * by)) + rnd ar (az * bz))"

definition lengthSq_r :: "arithmetic \<Rightarrow> vec3 \<Rightarrow> real" where
  "lengthSq_r ar v = dot_r ar v v"

definition length_r :: "arithmetic \<Rightarrow> vec3 \<Rightarrow> real" where
  "length_r ar v = rsqrt ar (lengthSq_r ar v)"

definition distanceTo_r :: "arithmetic \<Rightarrow> vec3 \<Rightarrow> vec3 \<Rightarrow> real" where
  "distanceTo_r ar a b = rsqrt ar (lengthSq_r ar (sub_r ar a b))"

definition normalize_r :: "arithmetic \<Rightarrow> vec3 \<Rightarrow> vec3" where
  "normalize_r ar v =
     multiplyScalar_r ar v (rnd ar (1 / (if length_r ar v = 0 then 1 else length_r ar v)))"

definition angleTo_r :: "arithmetic \<Rightarrow> vec3 \<Rightarrow> vec3 \<Rightarrow> real" where
  "angleTo_r ar a b =
     (let denominator = rsqrt ar (rnd ar (lengthSq_r ar a * lengthSq_r ar b))
      in if denominator = 0 then rnd ar (rnd ar pi / 2)
         else racos ar (clamp (rnd ar (dot_r ar a b / denominator)) (- 1) 1))"

definition distToCenter_r :: "arithmetic \<Rightarrow> camera \<Rightarrow> TargetEntity \<Rightarrow> real" where
  "distToCenter_r ar cam target =
     (let rayDir = worldDirection cam;
          targetPos = position target;
          toTarget = sub_r ar targetPos (cameraPosition cam);
          projectionLength = dot_r ar toTarget rayDir;
          closestPointOnRay =
            add_r ar (cameraPosition cam) (multiplyScalar_r ar rayDir projectionLength)
      in distanceTo_r ar closestPointOnRay targetPos)"

definition angleToTarget_r :: "arithmetic \<Rightarrow> camera \<Rightarrow> TargetEntity \<Rightarrow> real" where
  "angleToTarget_r ar cam target =
     (let rayDir = worldDirection cam;
          toTarget = sub_r ar (position target) (cameraPosition cam)
      in angleTo_r ar rayDir (normalize_r ar toTarget))"

definition checkTarget_r :: "arithmetic \<Rightarrow> camera \<Rightarrow> locals \<Rightarrow> TargetEntity \<Rightarrow> locals" where
  "checkTarget_r ar cam l target =
     (let l1 = (if distToCenter_r ar cam target < radius target
                then l \<lparr> hitFound := True, hitTargetId := id' target \<rparr> else l)
      in if less_inf (angleToTarget_r ar cam target) (minAngularDist l1)
         then l1 \<lparr> minAngularDist := Some (angleToTarget_r ar cam target),
                   closestTarget := Some target \<rparr>
         else l1)"

definition checkHits_r :: "arithmetic \<Rightarrow> camera \<Rightarrow> TargetEntity list \<Rightarrow> locals" where
  "checkHits_r ar cam activeTargets =
     foldl (checkTarget_r ar cam)
       \<lparr> hitFound = False, hitTargetId = [], closestTarget = None, minAngularDist = None \<rparr>
       activeTargets"

text \<open>Exact arithmetic, in which nothing is rounded: the pass of the sections above.\<close>

definition exact :: arithmetic where
  "exact = \<lparr> rnd = (\<lambda>x. x), rsqrt = sqrt, racos = arccos \<rparr>"

text \<open>
  Binary64 with rounding to nearest, ties to even, for numbers in the normal range (no
  overflow, no subnormal numbers): a number other than zero with \<open>2^e \<le> |x| < 2^(e+1)\<close>
  is rounded to the nearest multiple of \<open>2^(e-52)\<close>. The square root is rounded
  correctly, as IEEE 754 has it; the arc cosine is taken so too.
\<close>

definition roundHalfEven :: "real \<Rightarrow> int" where
  "roundHalfEven q =
     (let f = \<lfloor>q\<rfloor>
      in if q - of_int f < 1 / 2 then f
         else if q - of_int f > 1 / 2 then f + 1
         else if even f then f else f + 1)"

definition round64 :: "real \<Rightarrow> real" where
  "round64 x =
     (if x = 0 then 0
      else (let e = \<lfloor>log 2 \<bar>x\<bar>\<rfloor>;
                u = 2 powi (e - 52)
            in u * of_int (roundHalfEven (x / u))))"

definition binary64 :: arithmetic where
  "binary64 = \<lparr> rnd = round64, rsqrt = (\<lambda>x. round64 (sqrt x)),
                racos = (\<lambda>x. round64 (arccos x)) \<rparr>"

text \<open>
  A camera at the origin whose direction is made of the doubles nearest to 0.28 and to
  -0.96, and a target of radius one half whose position is made of the doubles nearest
  to 2.6 and to -10.7: the target is half a unit beside the ray, eleven units away. The
  translation is by one unit upwards; the translated coordinates are doubles again.
\<close>

definition aimHigh :: camera where
  "aimHigh =
     \<lparr> cameraPosition = (0, 0, 0),
       worldDirection = (0, 1261007895663739 / 4503599627370496,
                         - (1080863910568919 / 1125899906842624)),
       localRight = (1, 0, 0),
       localUp = (0, 1080863910568919 / 1125899906842624,
                  1261007895663739 / 4503599627370496) \<rparr>"

definition borderTarget :: TargetEntity where
  "borderTarget =
     \<lparr> id' = ''i'',
       position = (0, 5854679515581645 / 2251799813685248,
                   - (3011782250804019 / 281474976710656)),
       active = True, velocity = (0, 0, 0), radius = 1 / 2 \<rparr>"

section \<open>Properties\<close>

subsection \<open>The sensitivity is carried, not consumed\<close>

lemma spawnTarget_sens: "spawnTarget scn s1 cur fp rs = spawnTarget scn s2 cur fp rs"
  unfolding spawnTarget_def by (rule refl)

lemma useFrame_sens: "useFrame scn s1 d ts = useFrame scn s2 d ts"
  unfolding useFrame_def by (rule refl)

lemma handleShoot_sens: "handleShoot scn s1 cam r now g = handleShoot scn s2 cam r now g"
  unfolding handleShoot_def spawnTarget_def by (rule refl)

lemma timerTick_sens: "fst (timerTick scn s1 g) = fst (timerTick scn s2 g)"
  unfolding timerTick_def by simp

lemma step_sens: "step scn s1 g e = step scn s2 g e"
proof (cases e)
  case (Frame d)
  then show ?thesis by (simp add: useFrame_sens [of scn s1 d "targets g" s2])
next
  case (MouseDown cam r now)
  then show ?thesis by (simp add: handleShoot_sens [of scn s1 cam r now g s2])
next
  case Second
  then show ?thesis by (simp add: timerTick_sens [of scn s1 g s2])
qed

lemma run_sens: "run scn s1 g evs = run scn s2 g evs"
  unfolding run_def
  by (induction evs arbitrary: g) (simp_all add: step_sens [of scn s1 _ _ s2])

lemma mount_sens: "mount scn s1 rs = mount scn s2 rs"
  unfolding mount_def spawnTarget_def by (rule refl)

lemma analysis_sens: "analysis (st \<lparr> sensitivity := s \<rparr>) = analysis st"
proof -
  have m: "missData (st \<lparr> sensitivity := s \<rparr>) = missData st" by simp
  have c: "scenario (st \<lparr> sensitivity := s \<rparr>) = scenario st" by simp
  show ?thesis by (simp only: analysis_def m c)
qed

lemma handleGameFinish_sens:
  "handleGameFinish scn s1 sc fired nhit md =
     (handleGameFinish scn s2 sc fired nhit md) \<lparr> sensitivity := s1 \<rparr>"
  by (simp add: handleGameFinish_def)

text \<open>
  C9. Two sessions that differ in the sensitivity only, on the same random draws and the
  same events, reach the same state of the controller (targets, score, shots fired, shot
  log, time left, random source); the statistics handed to the results screen differ in
  the field \<open>sensitivity\<close> alone, which holds the configured value, and the analysis of
  the two statistics is the same.
\<close>

theorem sensitivity_pass_through:
  "run scn s1 (mount scn s1 rs) evs = run scn s2 (mount scn s2 rs) evs
   \<and> snd (timerTick scn s1 g) =
       map_option (\<lambda>st. st \<lparr> sensitivity := s1 \<rparr>) (snd (timerTick scn s2 g))
   \<and> handleGameFinish scn s1 sc fired nhit md =
       (handleGameFinish scn s2 sc fired nhit md) \<lparr> sensitivity := s1 \<rparr>
   \<and> sensitivity (handleGameFinish scn s1 sc fired nhit md) = s1
   \<and> analysis (handleGameFinish scn s1 sc fired nhit md) =
       analysis (handleGameFinish scn s2 sc fired nhit md)"
proof -
  have a: "run scn s1 (mount scn s1 rs) evs = run scn s2 (mount scn s2 rs) evs"
    by (simp add: mount_sens [of scn s1 rs s2] run_sens [of scn s1 _ evs s2])
  have b: "snd (timerTick scn s1 g) =
       map_option (\<lambda>st. st \<lparr> sensitivity := s1 \<rparr>) (snd (timerTick scn s2 g))"
    by (simp add: timerTick_def handleGameFinish_def)
  have c: "handleGameFinish scn s1 sc fired nhit md =
       (handleGameFinish scn s2 sc fired nhit md) \<lparr> sensitivity := s1 \<rparr>"
    by (rule handleGameFinish_sens)
  have d: "sensitivity (handleGameFinish scn s1 sc fired nhit md) = s1"
    by (simp add: handleGameFinish_def)
  have e: "analysis (handleGameFinish scn s1 sc fired nhit md) =
       analysis (handleGameFinish scn s2 sc fired nhit md)"
    by (simp only: handleGameFinish_sens [of scn s1 sc fired nhit md s2] analysis_sens)
  from a b c d e show ?thesis by blast
qed

subsection \<open>The statistics at the end of the session\<close>

text \<open>
  C10. When the countdown ends the session, the statistics report the score counter both
  as the score and as the number of hits, and, when at least one shot was fired, the
  accuracy is the score divided by the shots fired, times 100.
\<close>

theorem shotsHit_is_score:
  assumes "timerTick scn sens g = (g', Some st)"
  shows "shotsHit st = score st \<and> score st = scoreRef g \<and> shotsFired st = shotsFiredRef g
       \<and> (shotsFired st > 0 \<longrightarrow> accuracy st = real (score st) / real (shotsFired st) * 100)"
  using assms by (auto simp: timerTick_def handleGameFinish_def split: if_splits)

theorem shotsHit_is_score_witness:
  "timerTick TRACKING 1 lastSecond =
     (lastSecond \<lparr> timeLeft := 0 \<rparr>,
      Some (handleGameFinish TRACKING 1 3 4 3 (shotDataRef lastSecond)))
   \<and> shotsHit (handleGameFinish TRACKING 1 3 4 3 (shotDataRef lastSecond)) = 3
   \<and> score (handleGameFinish TRACKING 1 3 4 3 (shotDataRef lastSecond)) = 3
   \<and> shotsFired (handleGameFinish TRACKING 1 3 4 3 (shotDataRef lastSecond)) > 0
   \<and> accuracy (handleGameFinish TRACKING 1 3 4 3 (shotDataRef lastSecond)) = 75"
proof -
  have t: "timerTick TRACKING 1 lastSecond =
     (lastSecond \<lparr> timeLeft := 0 \<rparr>,
      Some (handleGameFinish TRACKING 1 3 4 3 (shotDataRef lastSecond)))"
    by (simp add: timerTick_def lastSecond_def)
  have f: "shotsFired (handleGameFinish TRACKING 1 3 4 3 (shotDataRef lastSecond)) = 4"
    by (simp add: handleGameFinish_def)
  have s: "scoreRef lastSecond = 3" by (simp add: lastSecond_def)
  from shotsHit_is_score [OF t] f s show ?thesis using t by simp
qed

subsection \<open>The analysis\<close>

text \<open>
  C7. For every scenario, a shot log without a miss gives six zero counts and the
  recommendation of the perfect run, which is the early return of the analysis.
\<close>

theorem analysis_no_misses:
  assumes "filter (\<lambda>s. \<not> hit s) (missData stats) = []"
  shows "analysis stats =
           \<lparr> left = 0, right = 0, top' = 0, bottom = 0, overshoots = 0, undershoots = 0,
             recommendation = ''Perfect run! Your sensitivity is well-tuned.'' \<rparr>"
  using assms by (simp add: analysis_def)

theorem analysis_no_misses_witness:
  "filter (\<lambda>s. \<not> hit s) (missData oneHit) = []
   \<and> analysis oneHit =
       \<lparr> left = 0, right = 0, top' = 0, bottom = 0, overshoots = 0, undershoots = 0,
         recommendation = ''Perfect run! Your sensitivity is well-tuned.'' \<rparr>"
proof -
  have h: "filter (\<lambda>s. \<not> hit s) (missData oneHit) = []"
    by (simp add: oneHit_def handleGameFinish_def hitRecord_def)
  from analysis_no_misses [OF h] h show ?thesis by simp
qed

lemma analysis_overshoots:
  "overshoots (analysis stats) =
     (if scenario stats = TRACKING
      then length (filter (\<lambda>m. (gt0 (targetVelocityX m) \<and> gt0 (relativeX m)) \<or>
                               (lt0 (targetVelocityX m) \<and> lt0 (relativeX m)))
                    (filter (\<lambda>m. targetVelocityX m \<noteq> None)
                       (filter (\<lambda>s. \<not> hit s) (missData stats))))
      else 0)"
proof (cases "filter (\<lambda>s. \<not> hit s) (missData stats) = []")
  case True
  then show ?thesis by (simp add: analysis_def)
next
  case False
  then have "(length (filter (\<lambda>s. \<not> hit s) (missData stats)) = 0) = False" by simp
  then show ?thesis
    unfolding analysis_def Let_def by (simp only: if_False Analysis.select_convs)
qed

lemma analysis_undershoots:
  "undershoots (analysis stats) =
     (if scenario stats = TRACKING
      then length (filter (\<lambda>m. (gt0 (targetVelocityX m) \<and> lt0 (relativeX m)) \<or>
                               (lt0 (targetVelocityX m) \<and> gt0 (relativeX m)))
                    (filter (\<lambda>m. targetVelocityX m \<noteq> None)
                       (filter (\<lambda>s. \<not> hit s) (missData stats))))
      else 0)"
proof (cases "filter (\<lambda>s. \<not> hit s) (missData stats) = []")
  case True
  then show ?thesis by (simp add: analysis_def)
next
  case False
  then have "(length (filter (\<lambda>s. \<not> hit s) (missData stats)) = 0) = False" by simp
  then show ?thesis
    unfolding analysis_def Let_def by (simp only: if_False Analysis.select_convs)
qed

lemma filter_overshoot_spec:
  "filter (\<lambda>m. (gt0 (targetVelocityX m) \<and> gt0 (relativeX m)) \<or>
                 (lt0 (targetVelocityX m) \<and> lt0 (relativeX m)))
     (filter (\<lambda>m. targetVelocityX m \<noteq> None) xs) = filter overshoot_spec xs"
proof (induction xs)
  case Nil
  show ?case by simp
next
  case (Cons m xs)
  then show ?case
    by (cases "targetVelocityX m"; cases "relativeX m") (simp_all add: overshoot_spec_def)
qed

lemma filter_undershoot_spec:
  "filter (\<lambda>m. (gt0 (targetVelocityX m) \<and> lt0 (relativeX m)) \<or>
                 (lt0 (targetVelocityX m) \<and> gt0 (relativeX m)))
     (filter (\<lambda>m. targetVelocityX m \<noteq> None) xs) = filter undershoot_spec xs"
proof (induction xs)
  case Nil
  show ?case by simp
next
  case (Cons m xs)
  then show ?case
    by (cases "targetVelocityX m"; cases "relativeX m") (simp_all add: undershoot_spec_def)
qed

lemma analysis_recommendation_tracking:
  assumes "scenario stats = TRACKING"
    and "filter (\<lambda>s. \<not> hit s) (missData stats) \<noteq> []"
  shows "recommendation (analysis stats) =
     (if real (overshoots (analysis stats)) > real (undershoots (analysis stats)) * 1.5
         \<and> overshoots (analysis stats) > 3
      then ''You consistently OVERSHOOT moving targets. '' @ [CHR 0x0A] @
           ''Try LOWERING your sensitivity or DPI slightly.''
      else if real (undershoots (analysis stats)) > real (overshoots (analysis stats)) * 1.5
         \<and> undershoots (analysis stats) > 3
      then ''You consistently UNDERSHOOT moving targets. '' @ [CHR 0x0A] @
           ''Try INCREASING your sensitivity or DPI slightly.''
      else ''Your aim is balanced. Continue training to build consistency.'')"
proof -
  from assms(2)
  have z: "(length (filter (\<lambda>s. \<not> hit s) (missData stats)) = 0) = False" by simp
  have t: "(scenario stats = TRACKING) = True" using assms(1) by simp
  show ?thesis
    unfolding analysis_def Let_def
    by (simp only: z t if_False if_True Analysis.select_convs)
qed


text \<open>
  C6. In the tracking scenario, overshoots counts the miss records that have a target
  velocity and whose horizontal offset has the sign of that velocity, undershoots those
  of the opposite sign; a log whose misses are five, each with a positive offset and a
  positive velocity, gives 5 overshoots, 0 undershoots and the overshoot recommendation.
\<close>

theorem tracking_overshoots:
  assumes "scenario stats = TRACKING"
  shows "overshoots (analysis stats) =
           length (filter overshoot_spec (filter (\<lambda>s. \<not> hit s) (missData stats)))
       \<and> undershoots (analysis stats) =
           length (filter undershoot_spec (filter (\<lambda>s. \<not> hit s) (missData stats)))
       \<and> (length (filter (\<lambda>s. \<not> hit s) (missData stats)) = 5
            \<and> list_all (\<lambda>m. gt0 (relativeX m) \<and> gt0 (targetVelocityX m))
                  (filter (\<lambda>s. \<not> hit s) (missData stats))
          \<longrightarrow> overshoots (analysis stats) = 5 \<and> undershoots (analysis stats) = 0
              \<and> recommendation (analysis stats) =
                  ''You consistently OVERSHOOT moving targets. '' @ [CHR 0x0A] @
                  ''Try LOWERING your sensitivity or DPI slightly.'')"
proof -
  let ?misses = "filter (\<lambda>s. \<not> hit s) (missData stats)"
  have over: "overshoots (analysis stats) = length (filter overshoot_spec ?misses)"
    by (simp only: analysis_overshoots assms simp_thms if_True filter_overshoot_spec)
  have under: "undershoots (analysis stats) = length (filter undershoot_spec ?misses)"
    by (simp only: analysis_undershoots assms simp_thms if_True filter_undershoot_spec)
  have five: "overshoots (analysis stats) = 5 \<and> undershoots (analysis stats) = 0
              \<and> recommendation (analysis stats) =
                  ''You consistently OVERSHOOT moving targets. '' @ [CHR 0x0A] @
                  ''Try LOWERING your sensitivity or DPI slightly.''"
    if len: "length ?misses = 5"
      and pos: "list_all (\<lambda>m. gt0 (relativeX m) \<and> gt0 (targetVelocityX m)) ?misses"
  proof -
    have all: "\<forall>m \<in> set ?misses. overshoot_spec m \<and> \<not> undershoot_spec m"
    proof
      fix m assume "m \<in> set ?misses"
      with pos have "gt0 (relativeX m) \<and> gt0 (targetVelocityX m)"
        by (simp add: list_all_iff)
      then show "overshoot_spec m \<and> \<not> undershoot_spec m"
        by (cases "targetVelocityX m"; cases "relativeX m")
           (simp_all add: overshoot_spec_def undershoot_spec_def)
    qed
    have fo: "filter overshoot_spec ?misses = ?misses"
      by (rule filter_True) (use all in blast)
    have fu: "filter undershoot_spec ?misses = []"
      by (rule filter_False) (use all in blast)
    have o5: "overshoots (analysis stats) = 5"
      unfolding over fo by (rule len)
    have u0: "undershoots (analysis stats) = 0"
      unfolding under fu by simp
    have ne: "?misses \<noteq> []" using len by auto
    show ?thesis
      using o5 u0 by (simp add: analysis_recommendation_tracking [OF assms ne])
  qed
  from over under five show ?thesis by blast
qed

theorem tracking_overshoots_witness:
  "scenario fiveOvershoots = TRACKING
   \<and> length (filter (\<lambda>s. \<not> hit s) (missData fiveOvershoots)) = 5
   \<and> list_all (\<lambda>m. gt0 (relativeX m) \<and> gt0 (targetVelocityX m))
        (filter (\<lambda>s. \<not> hit s) (missData fiveOvershoots))
   \<and> overshoots (analysis fiveOvershoots) = 5 \<and> undershoots (analysis fiveOvershoots) = 0
   \<and> recommendation (analysis fiveOvershoots) =
        ''You consistently OVERSHOOT moving targets. '' @ [CHR 0x0A] @
        ''Try LOWERING your sensitivity or DPI slightly.''"
proof -
  have s: "scenario fiveOvershoots = TRACKING"
    by (simp add: fiveOvershoots_def handleGameFinish_def Let_def)
  have l: "length (filter (\<lambda>s. \<not> hit s) (missData fiveOvershoots)) = 5"
    by (simp add: fiveOvershoots_def handleGameFinish_def Let_def)
  have p: "list_all (\<lambda>m. gt0 (relativeX m) \<and> gt0 (targetVelocityX m))
        (filter (\<lambda>s. \<not> hit s) (missData fiveOvershoots))"
    by (simp add: fiveOvershoots_def handleGameFinish_def Let_def)
  from tracking_overshoots [OF s] l p show ?thesis using s by blast
qed

subsection \<open>The bounce\<close>








subsection \<open>The pass over the targets\<close>

lemma checkTarget_hitFound:
  "hitFound (checkTarget cam l t) = (hitFound l \<or> distToCenter cam t < radius t)"
  by (simp add: checkTarget_def Let_def)

lemma checkTarget_hitTargetId:
  "hitTargetId (checkTarget cam l t) =
     (if distToCenter cam t < radius t then id' t else hitTargetId l)"
  by (simp add: checkTarget_def Let_def)

lemma foldl_checkTarget_hit:
  "hitFound (foldl (checkTarget cam) l ts) =
     (hitFound l \<or> filter (\<lambda>t. distToCenter cam t < radius t) ts \<noteq> [])
   \<and> hitTargetId (foldl (checkTarget cam) l ts) =
     (if filter (\<lambda>t. distToCenter cam t < radius t) ts = [] then hitTargetId l
      else id' (last (filter (\<lambda>t. distToCenter cam t < radius t) ts)))"
proof (induction ts rule: rev_induct)
  case Nil
  show ?case by simp
next
  case (snoc t ts)
  then show ?case
    by (simp add: checkTarget_hitFound checkTarget_hitTargetId)
qed

lemma checkHits_hitFound:
  "hitFound (checkHits cam ts) = (filter (\<lambda>t. distToCenter cam t < radius t) ts \<noteq> [])"
  unfolding checkHits_def by (simp add: foldl_checkTarget_hit)

lemma checkHits_hitTargetId:
  "filter (\<lambda>t. distToCenter cam t < radius t) ts \<noteq> [] \<Longrightarrow>
   hitTargetId (checkHits cam ts) = id' (last (filter (\<lambda>t. distToCenter cam t < radius t) ts))"
  unfolding checkHits_def by (simp add: foldl_checkTarget_hit)

lemma checkTarget_closest:
  "closestTarget (checkTarget cam l t) \<noteq> None"
  if "closestTarget l \<noteq> None \<or> minAngularDist l = None"
  using that by (auto simp: checkTarget_def Let_def)

lemma checkTarget_minAngularDist:
  "minAngularDist (checkTarget cam l t) \<noteq> None"
  by (cases "minAngularDist l") (auto simp: checkTarget_def Let_def)

lemma foldl_checkTarget_closest:
  "ts \<noteq> [] \<Longrightarrow> minAngularDist l = None \<Longrightarrow>
   closestTarget (foldl (checkTarget cam) l ts) \<noteq> None
   \<and> minAngularDist (foldl (checkTarget cam) l ts) \<noteq> None"
proof (induction ts rule: rev_induct)
  case Nil
  then show ?case by simp
next
  case (snoc t ts)
  show ?case
  proof (cases "ts = []")
    case True
    with snoc.prems show ?thesis
      by (simp add: checkTarget_closest checkTarget_minAngularDist)
  next
    case False
    with snoc have "closestTarget (foldl (checkTarget cam) l ts) \<noteq> None" by simp
    then show ?thesis
      by (simp add: checkTarget_closest checkTarget_minAngularDist)
  qed
qed

lemma checkHits_closest_Nil: "closestTarget (checkHits cam []) = None"
  by (simp add: checkHits_def)

lemma checkHits_closest: "ts \<noteq> [] \<Longrightarrow> closestTarget (checkHits cam ts) \<noteq> None"
  unfolding checkHits_def by (simp add: foldl_checkTarget_closest)

text \<open>The record that a shot appends.\<close>

lemma handleShoot_hit:
  assumes "hitFound (checkHits cam (targets g))"
  shows "shotDataRef (handleShoot scn sens cam r now g) =
           shotDataRef g @ [hitRecord now (hitTargetId (checkHits cam (targets g)))]"
    and "scoreRef (handleShoot scn sens cam r now g) = scoreRef g + 1"
    and "shotsFiredRef (handleShoot scn sens cam r now g) = shotsFiredRef g + 1"
  using assms by (simp_all add: handleShoot_def Let_def split: prod.splits)

lemma handleShoot_miss_target:
  assumes "\<not> hitFound (checkHits cam (targets g))"
    and "closestTarget (checkHits cam (targets g)) = Some ct"
  shows "shotDataRef (handleShoot scn sens cam r now g) =
           shotDataRef g @
             [missRecord now cam
                (case intersectPlane r (setFromNormalAndCoplanarPoint (worldDirection cam)
                                          (position ct)) of
                   None \<Rightarrow> (0, 0, 0) | Some p \<Rightarrow> p) ct]"
    and "scoreRef (handleShoot scn sens cam r now g) = scoreRef g"
    and "shotsFiredRef (handleShoot scn sens cam r now g) = shotsFiredRef g + 1"
    and "targets (handleShoot scn sens cam r now g) = targets g"
  using assms by (simp_all add: handleShoot_def Let_def truthy_def)

lemma handleShoot_miss_empty:
  assumes "\<not> hitFound (checkHits cam (targets g))"
    and "closestTarget (checkHits cam (targets g)) = None"
  shows "shotDataRef (handleShoot scn sens cam r now g) = shotDataRef g @ [bareMissRecord now]"
    and "scoreRef (handleShoot scn sens cam r now g) = scoreRef g"
    and "shotsFiredRef (handleShoot scn sens cam r now g) = shotsFiredRef g + 1"
    and "targets (handleShoot scn sens cam r now g) = targets g"
  using assms by (simp_all add: handleShoot_def Let_def)

lemma handleShoot_appends:
  "\<exists>sd. shotDataRef (handleShoot scn sens cam r now g) = shotDataRef g @ [sd]
        \<and> timestamp sd = now"
proof (cases "hitFound (checkHits cam (targets g))")
  case True
  then show ?thesis by (simp add: handleShoot_hit hitRecord_def)
next
  case False
  show ?thesis
  proof (cases "closestTarget (checkHits cam (targets g))")
    case None
    with False show ?thesis by (simp add: handleShoot_miss_empty bareMissRecord_def)
  next
    case (Some ct)
    with False show ?thesis by (simp add: handleShoot_miss_target missRecord_def Let_def)
  qed
qed

lemma handleShoot_shotsFired:
  "shotsFiredRef (handleShoot scn sens cam r now g) = shotsFiredRef g + 1"
proof (cases "hitFound (checkHits cam (targets g))")
  case True
  then show ?thesis by (simp add: handleShoot_hit)
next
  case False
  then show ?thesis
    by (cases "closestTarget (checkHits cam (targets g))")
       (simp_all add: handleShoot_miss_empty handleShoot_miss_target)
qed


subsection \<open>Which hit is reported\<close>

lemma distToCenter_A: "distToCenter aimUp targetA = 0"
  by (simp add: distToCenter_def aimUp_def targetA_def distanceTo_def lengthSq_def Let_def)

lemma distToCenter_B: "distToCenter aimUp targetB = 0"
  by (simp add: distToCenter_def aimUp_def targetB_def distanceTo_def lengthSq_def Let_def)

lemma distToCenter_C: "distToCenter aimUp targetC = 2"
  by (simp add: distToCenter_def aimUp_def targetC_def distanceTo_def lengthSq_def Let_def)

lemma radius_ABC: "radius targetA = 0.5" "radius targetB = 0.5" "radius targetC = 0.5"
  by (simp_all add: targetA_def targetB_def targetC_def)

lemma hit_A: "distToCenter aimUp targetA < radius targetA"
  unfolding distToCenter_A radius_ABC by simp

lemma hit_B: "distToCenter aimUp targetB < radius targetB"
  unfolding distToCenter_B radius_ABC by simp

lemma miss_C: "\<not> distToCenter aimUp targetC < radius targetC"
  unfolding distToCenter_C radius_ABC by simp

lemma filter_threeTargets:
  "filter (\<lambda>t. distToCenter aimUp t < radius t) (targets threeTargets) = [targetA, targetB]"
  by (simp add: threeTargets_def hit_A hit_B miss_C)

text \<open>
  C1, as the code has it. When at least one target passes the hit test, a hit is found
  and the target reported, in \<open>hitTargetId\<close> and in the record appended to the log, is the
  last target of the list that passes the test: each passing target overwrites the one
  before it.
\<close>

theorem last_hit_reported:
  assumes "filter (\<lambda>t. distToCenter cam t < radius t) (targets g) \<noteq> []"
  shows "hitFound (checkHits cam (targets g))
       \<and> hitTargetId (checkHits cam (targets g)) =
           id' (last (filter (\<lambda>t. distToCenter cam t < radius t) (targets g)))
       \<and> shotDataRef (handleShoot scn sens cam r now g) =
           shotDataRef g @
             [hitRecord now
                (id' (last (filter (\<lambda>t. distToCenter cam t < radius t) (targets g))))]"
proof -
  have h: "hitFound (checkHits cam (targets g))"
    using assms by (simp add: checkHits_hitFound)
  have i: "hitTargetId (checkHits cam (targets g)) =
           id' (last (filter (\<lambda>t. distToCenter cam t < radius t) (targets g)))"
    using assms by (rule checkHits_hitTargetId)
  from h i handleShoot_hit(1) [OF h, of scn sens r now] show ?thesis by simp
qed

theorem last_hit_reported_witness:
  "filter (\<lambda>t. distToCenter aimUp t < radius t) (targets threeTargets) = [targetA, targetB]
   \<and> hitFound (checkHits aimUp (targets threeTargets))
   \<and> hitTargetId (checkHits aimUp (targets threeTargets)) = ''b''
   \<and> shotDataRef (handleShoot GRIDSHOT 1 aimUp aimUpRay 100 threeTargets) =
       [hitRecord 100 ''b'']"
proof -
  have ne: "filter (\<lambda>t. distToCenter aimUp t < radius t) (targets threeTargets) \<noteq> []"
    by (simp add: filter_threeTargets)
  have e: "shotDataRef threeTargets = []" by (simp add: threeTargets_def)
  have b: "id' targetB = ''b''" by (simp add: targetB_def)
  from last_hit_reported [OF ne, of GRIDSHOT 1 aimUpRay 100]
  show ?thesis by (simp add: filter_threeTargets e b)
qed

text \<open>The claim as it is worded fails where two targets pass the test: A comes first and
  B is reported.\<close>

theorem first_hit_not_reported:
  "distToCenter aimUp targetA < radius targetA
   \<and> distToCenter aimUp targetB < radius targetB
   \<and> targets threeTargets = [targetA, targetB, targetC]
   \<and> id' targetA = ''a''
   \<and> hitTargetId (checkHits aimUp (targets threeTargets)) = ''b''
   \<and> shotDataRef (handleShoot GRIDSHOT 1 aimUp aimUpRay 100 threeTargets) =
       [hitRecord 100 ''b'']"
proof -
  have ne: "filter (\<lambda>t. distToCenter aimUp t < radius t) (targets threeTargets) \<noteq> []"
    by (simp add: filter_threeTargets)
  have h: "hitFound (checkHits aimUp (targets threeTargets))"
    using ne by (simp add: checkHits_hitFound)
  have i: "hitTargetId (checkHits aimUp (targets threeTargets)) = ''b''"
    by (simp add: checkHits_hitTargetId [OF ne] filter_threeTargets targetB_def)
  have s: "shotDataRef (handleShoot GRIDSHOT 1 aimUp aimUpRay 100 threeTargets) =
       [hitRecord 100 ''b'']"
    by (simp add: handleShoot_hit(1) [OF h] i) (simp add: threeTargets_def)
  note a = hit_A and b = hit_B
  have t: "targets threeTargets = [targetA, targetB, targetC]"
    by (simp add: threeTargets_def)
  have n: "id' targetA = ''a''" by (simp add: targetA_def)
  from a b t n i s show ?thesis by blast
qed

subsection \<open>The shot log\<close>

lemma fireTimes_Cons: "fireTimes (e # evs) = fireTimes [e] @ fireTimes evs"
  by (cases e) simp_all

lemma step_log:
  "\<exists>new. shotDataRef (step scn sens g e) = shotDataRef g @ new
         \<and> map timestamp new = fireTimes [e]
         \<and> shotsFiredRef (step scn sens g e) = shotsFiredRef g + length new"
proof (cases e)
  case (Frame d)
  then show ?thesis by simp
next
  case (MouseDown cam r now)
  from handleShoot_appends [of scn sens cam r now g]
  obtain sd where "shotDataRef (handleShoot scn sens cam r now g) = shotDataRef g @ [sd]"
    and "timestamp sd = now" by blast
  with MouseDown show ?thesis by (simp add: handleShoot_shotsFired)
next
  case Second
  then show ?thesis by (simp add: timerTick_def)
qed

lemma run_Cons: "run scn sens g (e # evs) = run scn sens (step scn sens g e) evs"
  by (simp add: run_def)

lemma run_log:
  "\<exists>new. shotDataRef (run scn sens g evs) = shotDataRef g @ new
         \<and> map timestamp new = fireTimes evs
         \<and> shotsFiredRef (run scn sens g evs) = shotsFiredRef g + length new"
proof (induction evs arbitrary: g)
  case Nil
  show ?case by (simp add: run_def)
next
  case (Cons e evs)
  from step_log [of scn sens g e] obtain n1 where
    a: "shotDataRef (step scn sens g e) = shotDataRef g @ n1"
      "map timestamp n1 = fireTimes [e]"
      "shotsFiredRef (step scn sens g e) = shotsFiredRef g + length n1" by blast
  from Cons.IH [of "step scn sens g e"] obtain n2 where
    b: "shotDataRef (run scn sens (step scn sens g e) evs) = shotDataRef (step scn sens g e) @ n2"
      "map timestamp n2 = fireTimes evs"
      "shotsFiredRef (run scn sens (step scn sens g e) evs) =
         shotsFiredRef (step scn sens g e) + length n2" by blast
  have "shotDataRef (run scn sens g (e # evs)) = shotDataRef g @ (n1 @ n2)"
    using a(1) b(1) by (simp add: run_Cons)
  moreover have "map timestamp (n1 @ n2) = fireTimes (e # evs)"
    using a(2) b(2) by (simp add: fireTimes_Cons [of e evs])
  moreover have "shotsFiredRef (run scn sens g (e # evs)) = shotsFiredRef g + length (n1 @ n2)"
    using a(3) b(3) by (simp add: run_Cons)
  ultimately show ?case by blast
qed

lemma mount_counters:
  "shotDataRef (mount scn sens rs) = [] \<and> shotsFiredRef (mount scn sens rs) = 0
   \<and> scoreRef (mount scn sens rs) = 0"
  by (simp add: mount_def Let_def split: prod.splits)

text \<open>
  C5. In a session, whatever the scenario, the draws and the events (frames, shots and
  seconds of the countdown, in any order), the log is as long as the count of shots fired,
  which is the number of fire events, and the timestamps of its records are the times of
  the fire events in their order. One shot makes the log one record longer, leaves the
  records it held as they were, and the new record, the last, carries the time of the
  shot; no later event changes or removes a record the log holds.
\<close>

theorem one_record_per_shot:
  "length (shotDataRef (run scn sens (mount scn sens rs) evs)) =
     shotsFiredRef (run scn sens (mount scn sens rs) evs)
   \<and> shotsFiredRef (run scn sens (mount scn sens rs) evs) = length (fireTimes evs)
   \<and> map timestamp (shotDataRef (run scn sens (mount scn sens rs) evs)) = fireTimes evs
   \<and> length (shotDataRef (handleShoot scn sens cam r now g)) = Suc (length (shotDataRef g))
   \<and> take (length (shotDataRef g)) (shotDataRef (handleShoot scn sens cam r now g)) =
       shotDataRef g
   \<and> timestamp (last (shotDataRef (handleShoot scn sens cam r now g))) = now
   \<and> take (length (shotDataRef g)) (shotDataRef (run scn sens g evs)) = shotDataRef g"
proof -
  from run_log [of scn sens "mount scn sens rs" evs] obtain new where
    n: "shotDataRef (run scn sens (mount scn sens rs) evs) = new"
      "map timestamp new = fireTimes evs"
      "shotsFiredRef (run scn sens (mount scn sens rs) evs) = length new"
    by (auto simp: mount_counters)
  have l: "length new = length (fireTimes evs)"
    using n(2) by (metis length_map)
  from handleShoot_appends [of scn sens cam r now g] obtain sd where
    h: "shotDataRef (handleShoot scn sens cam r now g) = shotDataRef g @ [sd]"
      "timestamp sd = now" by blast
  from run_log [of scn sens g evs] obtain new' where
    r: "shotDataRef (run scn sens g evs) = shotDataRef g @ new'" by blast
  show ?thesis using n l h r by simp
qed

subsection \<open>Translation of the scene in exact arithmetic\<close>

lemma sub_translate: "sub (add a v) (add b v) = sub a b"
  by (cases a; cases b; cases v) simp

lemma sub_add_translate: "sub (add (add a v) w) (add b v) = sub (add a w) b"
  by (cases a; cases b; cases v; cases w) simp

lemma distToCenter_translate:
  "distToCenter (translateCamera v cam) (translateTarget v t) = distToCenter cam t"
  by (simp add: distToCenter_def translateCamera_def translateTarget_def Let_def
        distanceTo_def sub_translate sub_add_translate)

lemma angleToTarget_translate:
  "angleToTarget (translateCamera v cam) (translateTarget v t) = angleToTarget cam t"
  by (simp add: angleToTarget_def translateCamera_def translateTarget_def Let_def
        sub_translate)

lemma checkTarget_translate:
  "checkTarget (translateCamera v cam) (translateLocals v l) (translateTarget v t) =
     translateLocals v (checkTarget cam l t)"
proof -
  have r: "radius (translateTarget v t) = radius t" "id' (translateTarget v t) = id' t"
    by (simp_all add: translateTarget_def)
  have m: "minAngularDist (translateLocals v l) = minAngularDist l"
    by (simp add: translateLocals_def)
  show ?thesis
    unfolding checkTarget_def Let_def distToCenter_translate angleToTarget_translate r
    by (simp add: translateLocals_def)
qed

lemma foldl_checkTarget_translate:
  "foldl (checkTarget (translateCamera v cam)) (translateLocals v l)
     (map (translateTarget v) ts) =
   translateLocals v (foldl (checkTarget cam) l ts)"
  by (induction ts arbitrary: l) (simp_all add: checkTarget_translate)

lemma checkHits_translate:
  "checkHits (translateCamera v cam) (map (translateTarget v) ts) =
     translateLocals v (checkHits cam ts)"
proof -
  have "translateLocals v \<lparr> hitFound = False, hitTargetId = [], closestTarget = None,
           minAngularDist = None \<rparr> =
        \<lparr> hitFound = False, hitTargetId = [], closestTarget = None, minAngularDist = None \<rparr>"
    by (simp add: translateLocals_def)
  with foldl_checkTarget_translate [of v cam
      "\<lparr> hitFound = False, hitTargetId = [], closestTarget = None, minAngularDist = None \<rparr>" ts]
  show ?thesis by (simp add: checkHits_def)
qed

text \<open>In exact arithmetic a translation changes nothing in the result of the pass: the
  difference of two translated points is the difference of the points.\<close>

lemma exact_hit_test_translation:
  "hitFound (checkHits (translateCamera v cam) (map (translateTarget v) ts)) =
     hitFound (checkHits cam ts)
   \<and> hitTargetId (checkHits (translateCamera v cam) (map (translateTarget v) ts)) =
     hitTargetId (checkHits cam ts)
   \<and> closestTarget (checkHits (translateCamera v cam) (map (translateTarget v) ts)) =
     map_option (translateTarget v) (closestTarget (checkHits cam ts))
   \<and> map_option id' (closestTarget (checkHits (translateCamera v cam)
                                       (map (translateTarget v) ts))) =
     map_option id' (closestTarget (checkHits cam ts))"
proof -
  have i: "map_option id' (map_option (translateTarget v) c) = map_option id' c" for c
    by (cases c) (simp_all add: translateTarget_def)
  show ?thesis
    unfolding checkHits_translate by (simp add: translateLocals_def i)
qed

subsection \<open>The rounded pass: exact arithmetic, hits and the intended target\<close>

lemma exact_fields: "rnd exact x = x" "rsqrt exact x = sqrt x" "racos exact x = arccos x"
  by (simp_all add: exact_def)

lemma sub_r_exact: "sub_r exact a b = sub a b"
  by (cases a; cases b) (simp add: exact_fields)

lemma add_r_exact: "add_r exact a b = add a b"
  by (cases a; cases b) (simp add: exact_fields)

lemma multiplyScalar_r_exact: "multiplyScalar_r exact a s = multiplyScalar a s"
  by (cases a) (simp add: exact_fields)

lemma dot_r_exact: "dot_r exact a b = dot a b"
  by (cases a; cases b) (simp add: exact_fields)

lemma lengthSq_r_exact: "lengthSq_r exact a = lengthSq a"
  by (simp add: lengthSq_r_def lengthSq_def dot_r_exact)

lemma length_r_exact: "length_r exact a = length_v a"
  by (simp add: length_r_def length_v_def lengthSq_r_exact exact_fields)

lemma distanceTo_r_exact: "distanceTo_r exact a b = distanceTo a b"
  by (simp add: distanceTo_r_def distanceTo_def lengthSq_r_exact sub_r_exact exact_fields)

lemma normalize_r_exact: "normalize_r exact a = normalize a"
  by (simp only: normalize_r_def normalize_def length_r_exact multiplyScalar_r_exact
        exact_fields)

lemma angleTo_r_exact: "angleTo_r exact a b = angleTo a b"
  by (simp only: angleTo_r_def angleTo_def lengthSq_r_exact dot_r_exact exact_fields)

lemma distToCenter_r_exact: "distToCenter_r exact cam t = distToCenter cam t"
  by (simp only: distToCenter_r_def distToCenter_def distanceTo_r_exact sub_r_exact
        add_r_exact multiplyScalar_r_exact dot_r_exact)

lemma angleToTarget_r_exact: "angleToTarget_r exact cam t = angleToTarget cam t"
  by (simp only: angleToTarget_r_def angleToTarget_def angleTo_r_exact normalize_r_exact
        sub_r_exact)

lemma checkTarget_r_exact: "checkTarget_r exact cam l t = checkTarget cam l t"
  by (simp only: checkTarget_r_def checkTarget_def distToCenter_r_exact angleToTarget_r_exact)

lemma checkHits_r_exact: "checkHits_r exact cam ts = checkHits cam ts"
proof -
  have "checkTarget_r exact cam = checkTarget cam"
    by (intro ext) (rule checkTarget_r_exact)
  then show ?thesis by (simp add: checkHits_r_def checkHits_def)
qed

lemma checkTarget_r_hitFound:
  "hitFound (checkTarget_r ar cam l t) = (hitFound l \<or> distToCenter_r ar cam t < radius t)"
  by (simp add: checkTarget_r_def Let_def)

lemma foldl_checkTarget_r_hitFound:
  "hitFound (foldl (checkTarget_r ar cam) l ts) =
     (hitFound l \<or> filter (\<lambda>t. distToCenter_r ar cam t < radius t) ts \<noteq> [])"
  by (induction ts rule: rev_induct) (simp_all add: checkTarget_r_hitFound)

lemma checkHits_r_hitFound:
  "hitFound (checkHits_r ar cam ts) =
     (filter (\<lambda>t. distToCenter_r ar cam t < radius t) ts \<noteq> [])"
  unfolding checkHits_r_def by (simp add: foldl_checkTarget_r_hitFound)

lemma checkTarget_r_minAngularDist:
  "minAngularDist (checkTarget_r ar cam l t) =
     (if less_inf (angleToTarget_r ar cam t) (minAngularDist l)
      then Some (angleToTarget_r ar cam t) else minAngularDist l)"
  by (simp add: checkTarget_r_def Let_def)

lemma checkTarget_r_closestTarget:
  "closestTarget (checkTarget_r ar cam l t) =
     (if less_inf (angleToTarget_r ar cam t) (minAngularDist l)
      then Some t else closestTarget l)"
  by (simp add: checkTarget_r_def Let_def)

lemma sub_r_translate: "sub_r ar (add a v) (add b v) = sub_r ar a b"
  by (cases a; cases b; cases v) simp

lemma angleToTarget_r_translate:
  "angleToTarget_r ar (translateCamera v cam) (translateTarget v t) = angleToTarget_r ar cam t"
  by (simp add: angleToTarget_r_def translateCamera_def translateTarget_def Let_def
        sub_r_translate)

lemma foldl_checkTarget_r_translate:
  assumes "minAngularDist l' = minAngularDist l"
    and "closestTarget l' = map_option (translateTarget v) (closestTarget l)"
  shows "minAngularDist (foldl (checkTarget_r ar (translateCamera v cam)) l'
                           (map (translateTarget v) ts)) =
         minAngularDist (foldl (checkTarget_r ar cam) l ts)
       \<and> closestTarget (foldl (checkTarget_r ar (translateCamera v cam)) l'
                           (map (translateTarget v) ts)) =
         map_option (translateTarget v) (closestTarget (foldl (checkTarget_r ar cam) l ts))"
  using assms
proof (induction ts arbitrary: l l')
  case Nil
  then show ?case by simp
next
  case (Cons t ts)
  have m: "minAngularDist (checkTarget_r ar (translateCamera v cam) l' (translateTarget v t)) =
           minAngularDist (checkTarget_r ar cam l t)"
    using Cons.prems(1)
    by (simp add: checkTarget_r_minAngularDist angleToTarget_r_translate)
  have c: "closestTarget (checkTarget_r ar (translateCamera v cam) l' (translateTarget v t)) =
           map_option (translateTarget v) (closestTarget (checkTarget_r ar cam l t))"
    using Cons.prems
    by (simp add: checkTarget_r_closestTarget angleToTarget_r_translate)
  from Cons.IH [OF m c] show ?case by simp
qed

text \<open>
  C8, as the code has it. Under a translation of the camera position, which is the
  origin of the ray, and of every target by the same vector, the coordinates after the
  translation being the exact sums, the intended target is the translated copy of the one
  chosen before, with the same identifier and at the same angle, whatever the rounding of
  the arithmetic: the angle is computed from the difference of the two positions. The
  hit test is not part of the statement: its distance is computed from a point in
  absolute coordinates, which rounds differently after the translation.
\<close>

theorem intended_target_translation:
  "closestTarget (checkHits_r ar (translateCamera v cam) (map (translateTarget v) ts)) =
     map_option (translateTarget v) (closestTarget (checkHits_r ar cam ts))
   \<and> map_option id' (closestTarget (checkHits_r ar (translateCamera v cam)
                                       (map (translateTarget v) ts))) =
     map_option id' (closestTarget (checkHits_r ar cam ts))
   \<and> minAngularDist (checkHits_r ar (translateCamera v cam) (map (translateTarget v) ts)) =
     minAngularDist (checkHits_r ar cam ts)"
proof -
  let ?l0 = "\<lparr> hitFound = False, hitTargetId = [], closestTarget = None,
               minAngularDist = None \<rparr>"
  have a: "minAngularDist ?l0 = minAngularDist ?l0" by simp
  have b: "closestTarget ?l0 = map_option (translateTarget v) (closestTarget ?l0)" by simp
  have i: "map_option id' (map_option (translateTarget v) c) = map_option id' c" for c
    by (cases c) (simp_all add: translateTarget_def)
  from foldl_checkTarget_r_translate [OF a b, of ar cam ts]
  show ?thesis by (simp add: checkHits_r_def i)
qed

subsection \<open>Binary64: the hit test before and after a translation\<close>

lemma floor_log2:
  assumes "2 powi e \<le> \<bar>x\<bar>" and "\<bar>x\<bar> < 2 powi (e + 1)"
  shows "\<lfloor>log 2 \<bar>x\<bar>\<rfloor> = e"
proof -
  have pos: "0 < \<bar>x\<bar>"
    using assms(1) by (smt (verit) zero_less_power_int)
  have a: "of_int e \<le> log 2 \<bar>x\<bar>"
    using assms(1) pos by (simp add: le_log_iff powr_real_of_int')
  have "2 powr (of_int (e + 1)) = (2::real) powi (e + 1)"
    by (rule powr_real_of_int') simp_all
  then have b: "log 2 \<bar>x\<bar> < of_int (e + 1)"
    using assms(2) pos by (simp only: log_less_iff [of 2 "\<bar>x\<bar>" "of_int (e + 1)"])
  from a b show ?thesis by (simp add: floor_eq_iff)
qed

lemma round64_at:
  assumes "2 powi e \<le> \<bar>x\<bar>" and "\<bar>x\<bar> < 2 powi (e + 1)"
  shows "round64 x = 2 powi (e - 52) * of_int (roundHalfEven (x / 2 powi (e - 52)))"
proof -
  have "x \<noteq> 0" using assms(1) by (smt (verit) zero_less_power_int abs_zero)
  then show ?thesis by (simp add: round64_def floor_log2 [OF assms] Let_def)
qed

lemma round64_zero: "round64 0 = 0"
  by (simp add: round64_def)

lemma roundHalfEven_le:
  assumes "q < of_int n + 1 / 2"
  shows "roundHalfEven q \<le> n"
proof -
  have f: "\<lfloor>q\<rfloor> \<le> n" using assms by linarith
  show ?thesis
  proof (cases "\<lfloor>q\<rfloor> = n")
    case True
    then have "q - of_int \<lfloor>q\<rfloor> < 1 / 2" using assms by simp
    then show ?thesis using True by (simp add: roundHalfEven_def Let_def)
  next
    case False
    with f have "\<lfloor>q\<rfloor> + 1 \<le> n" by simp
    then show ?thesis by (simp add: roundHalfEven_def Let_def)
  qed
qed

lemma roundHalfEven_ge:
  assumes "of_int n \<le> q"
  shows "n \<le> roundHalfEven q"
proof -
  have "n \<le> \<lfloor>q\<rfloor>" using assms by linarith
  then show ?thesis by (simp add: roundHalfEven_def Let_def)
qed

text \<open>A number from a quarter up to, not including, the middle between one half and the
  double before it is rounded below one half; a number from one half up is not.\<close>

lemma round64_below_half:
  assumes "1 / 4 \<le> x" and "x < 1 / 2 - 1 / 2 ^ 55"
  shows "round64 x < 1 / 2"
proof -
  have r: "round64 x = 2 powi (- 54) * of_int (roundHalfEven (x / 2 powi (- 54)))"
    using assms round64_at [of "- 2" x] by (simp add: power_int_minus)
  have "x / 2 powi (- 54) < of_int (2 ^ 53 - 1) + 1 / 2"
    using assms(2) by (simp add: power_int_minus field_simps)
  then have "roundHalfEven (x / 2 powi (- 54)) \<le> 2 ^ 53 - 1"
    by (rule roundHalfEven_le)
  then have "(of_int (roundHalfEven (x / 2 powi (- 54))) :: real) \<le> of_int (2 ^ 53 - 1)"
    by (simp only: of_int_le_iff)
  then show ?thesis unfolding r by (simp add: power_int_minus field_simps)
qed

lemma round64_from_half:
  assumes "1 / 2 \<le> x" and "x < 1"
  shows "1 / 2 \<le> round64 x"
proof -
  have r: "round64 x = 2 powi (- 53) * of_int (roundHalfEven (x / 2 powi (- 53)))"
    using assms round64_at [of "- 1" x] by (simp add: power_int_minus)
  have "of_int (2 ^ 52) \<le> x / 2 powi (- 53)"
    using assms(1) by (simp add: power_int_minus field_simps)
  then have "2 ^ 52 \<le> roundHalfEven (x / 2 powi (- 53))"
    by (rule roundHalfEven_ge)
  then have "(of_int (2 ^ 52) :: real) \<le> of_int (roundHalfEven (x / 2 powi (- 53)))"
    by (simp only: of_int_le_iff)
  then show ?thesis unfolding r by (simp add: power_int_minus field_simps)
qed

text \<open>The roundings that the two computations meet.\<close>

lemma round64_fact1: "round64 (5854679515581645 / 2251799813685248) = 5854679515581645 / 2251799813685248"
  by (subst round64_at [of "1"]) (simp_all add: roundHalfEven_def power_int_minus)

lemma round64_fact2: "round64 (- (3011782250804019 / 281474976710656)) = - (3011782250804019 / 281474976710656)"
  by (subst round64_at [of "3"]) (simp_all add: roundHalfEven_def power_int_minus)

lemma round64_fact3: "round64 (7382797095729208989079920470655 / 10141204801825835211973625643008) = 6557241057451443 / 9007199254740992"
  by (subst round64_at [of "- 1"]) (simp_all add: roundHalfEven_def power_int_minus)

lemma round64_fact4: "round64 (3255326741386092766399461685461 / 316912650057057350374175801344) = 1445655480385929 / 140737488355328"
  by (subst round64_at [of "3"]) (simp_all add: roundHalfEven_def power_int_minus)

lemma round64_fact5: "round64 (6557241057451443 / 9007199254740992) = 6557241057451443 / 9007199254740992"
  by (subst round64_at [of "- 1"]) (simp_all add: roundHalfEven_def power_int_minus)

lemma round64_fact6: "round64 (99079191802150899 / 9007199254740992) = 6192449487634431 / 562949953421312"
  by (subst round64_at [of "3"]) (simp_all add: roundHalfEven_def power_int_minus)

lemma round64_fact7: "round64 (7808727697405892595305734597509 / 2535301200456458802993406410752) = 6935543426150563 / 2251799813685248"
  by (subst round64_at [of "1"]) (simp_all add: roundHalfEven_def power_int_minus)

lemma round64_fact8: "round64 (- (6693195169205049911340702850089 / 633825300114114700748351602688)) = - (2972375754064527 / 281474976710656)"
  by (subst round64_at [of "3"]) (simp_all add: roundHalfEven_def power_int_minus)

lemma round64_fact9: "round64 (6935543426150563 / 2251799813685248) = 6935543426150563 / 2251799813685248"
  by (subst round64_at [of "1"]) (simp_all add: roundHalfEven_def power_int_minus)

lemma round64_fact10: "round64 (- (2972375754064527 / 281474976710656)) = - (2972375754064527 / 281474976710656)"
  by (subst round64_at [of "3"]) (simp_all add: roundHalfEven_def power_int_minus)

lemma round64_fact11: "round64 (540431955284459 / 1125899906842624) = 540431955284459 / 1125899906842624"
  by (subst round64_at [of "- 2"]) (simp_all add: roundHalfEven_def power_int_minus)

lemma round64_fact12: "round64 (9851624184873 / 70368744177664) = 9851624184873 / 70368744177664"
  by (subst round64_at [of "- 3"]) (simp_all add: roundHalfEven_def power_int_minus)

lemma round64_fact13: "round64 (292066698292583492055606922681 / 1267650600228229401496703205376) = 4150517416584641 / 18014398509481984"
  by (subst round64_at [of "- 3"]) (simp_all add: roundHalfEven_def power_int_minus)

lemma round64_fact14: "round64 (97054499079974601682026129 / 4951760157141521099596496896) = 1412328843143399 / 72057594037927936"
  by (subst round64_at [of "- 6"]) (simp_all add: roundHalfEven_def power_int_minus)

lemma round64_fact15: "round64 (4150517416584641 / 18014398509481984) = 4150517416584641 / 18014398509481984"
  by (subst round64_at [of "- 3"]) (simp_all add: roundHalfEven_def power_int_minus)

lemma round64_fact16: "round64 (18014398509481963 / 72057594037927936) = 4503599627370491 / 18014398509481984"
  by (subst round64_at [of "- 3"]) (simp_all add: roundHalfEven_def power_int_minus)

lemma round64_fact17: "round64 (9187343239835811 / 2251799813685248) = 2296835809958953 / 562949953421312"
  by (subst round64_at [of "2"]) (simp_all add: roundHalfEven_def power_int_minus)

lemma round64_fact18: "round64 (1080863910568919 / 2251799813685248) = 1080863910568919 / 2251799813685248"
  by (subst round64_at [of "- 2"]) (simp_all add: roundHalfEven_def power_int_minus)

lemma round64_fact19: "round64 (1168266793170336129950248828561 / 5070602400912917605986812821504) = 4150517416584649 / 18014398509481984"
  by (subst round64_at [of "- 3"]) (simp_all add: roundHalfEven_def power_int_minus)

lemma round64_fact20: "round64 (4150517416584649 / 18014398509481984) = 4150517416584649 / 18014398509481984"
  by (subst round64_at [of "- 3"]) (simp_all add: roundHalfEven_def power_int_minus)

lemma round64_fact21: "round64 (18014398509481995 / 72057594037927936) = 4503599627370499 / 18014398509481984"
  by (subst round64_at [of "- 2"]) (simp_all add: roundHalfEven_def power_int_minus)

lemmas round64_facts =
  round64_zero round64_fact1 round64_fact2 round64_fact3 round64_fact4 round64_fact5
  round64_fact6 round64_fact7 round64_fact8 round64_fact9 round64_fact10 round64_fact11
  round64_fact12 round64_fact13 round64_fact14 round64_fact15 round64_fact16
  round64_fact17 round64_fact18 round64_fact19 round64_fact20 round64_fact21

lemma binary64_fields:
  "rnd binary64 x = round64 x" "rsqrt binary64 x = round64 (sqrt x)"
  by (simp_all add: binary64_def)

lemma distToCenter_before:
  "distToCenter_r binary64 aimHigh borderTarget =
     round64 (sqrt (4503599627370491 / 18014398509481984))"
  by (simp add: distToCenter_r_def aimHigh_def borderTarget_def distanceTo_r_def
        lengthSq_r_def Let_def binary64_fields round64_facts)

lemma distToCenter_after:
  "distToCenter_r binary64 (translateCamera (0, 1, 0) aimHigh)
     (translateTarget (0, 1, 0) borderTarget) =
     round64 (sqrt (4503599627370499 / 18014398509481984))"
  by (simp add: distToCenter_r_def aimHigh_def borderTarget_def translateCamera_def
        translateTarget_def distanceTo_r_def lengthSq_r_def Let_def binary64_fields
        round64_facts)

lemma hit_before: "distToCenter_r binary64 aimHigh borderTarget < radius borderTarget"
proof -
  have a: "1 / 4 \<le> sqrt (4503599627370491 / 18014398509481984)"
    by (rule real_le_rsqrt) (simp add: power2_eq_square)
  have b: "sqrt (4503599627370491 / 18014398509481984) < 1 / 2 - 1 / 2 ^ 55"
    by (rule real_less_lsqrt) (simp_all add: power2_eq_square)
  have "radius borderTarget = 1 / 2" by (simp add: borderTarget_def)
  then show ?thesis
    unfolding distToCenter_before using round64_below_half [OF a b] by simp
qed

lemma miss_after:
  "\<not> distToCenter_r binary64 (translateCamera (0, 1, 0) aimHigh)
       (translateTarget (0, 1, 0) borderTarget)
     < radius (translateTarget (0, 1, 0) borderTarget)"
proof -
  have a: "1 / 2 \<le> sqrt (4503599627370499 / 18014398509481984)"
    by (rule real_le_rsqrt) (simp add: power2_eq_square)
  have b: "sqrt (4503599627370499 / 18014398509481984) < 1"
    by (rule real_less_lsqrt) (simp_all add: power2_eq_square)
  have "radius (translateTarget (0, 1, 0) borderTarget) = 1 / 2"
    by (simp add: borderTarget_def translateTarget_def)
  then show ?thesis
    unfolding distToCenter_after using round64_from_half [OF a b] by simp
qed

text \<open>The claim as it is worded fails in binary64: the target is hit, and after the
  translation of camera and target by one unit upwards it is missed.\<close>

theorem hit_lost_under_translation:
  "hitFound (checkHits_r binary64 aimHigh [borderTarget])
   \<and> hitTargetId (checkHits_r binary64 aimHigh [borderTarget]) = ''i''
   \<and> \<not> hitFound (checkHits_r binary64 (translateCamera (0, 1, 0) aimHigh)
                    (map (translateTarget (0, 1, 0)) [borderTarget]))"
proof -
  have i: "id' borderTarget = ''i''" by (simp add: borderTarget_def)
  have a: "hitFound (checkHits_r binary64 aimHigh [borderTarget])"
    by (simp add: checkHits_r_hitFound hit_before)
  have b: "hitTargetId (checkHits_r binary64 aimHigh [borderTarget]) = ''i''"
    by (simp add: checkHits_r_def checkTarget_r_def Let_def hit_before i)
  have c: "\<not> hitFound (checkHits_r binary64 (translateCamera (0, 1, 0) aimHigh)
                    (map (translateTarget (0, 1, 0)) [borderTarget]))"
    by (simp add: checkHits_r_hitFound miss_after)
  from a b c show ?thesis by blast
qed

subsection \<open>The identifier of a spawned target\<close>

lemma spawnTarget_id:
  "id' (fst (spawnTarget scn sens cur fp rs)) = substr (toString36 (shd rs)) 2 9"
  by (simp add: spawnTarget_def Let_def split: prod.splits option.splits)

lemma spawnTarget_list:
  "fst (snd (spawnTarget scn sens cur fp rs)) = cur @ [fst (spawnTarget scn sens cur fp rs)]"
  by (simp add: spawnTarget_def Let_def split: prod.splits option.splits)

lemma mount_GRIDSHOT_ids:
  "map id' (targets (mount GRIDSHOT sens rs)) =
     [substr (toString36 (shd rs)) 2 9,
      substr (toString36 (shd (stl (stl (stl (stl rs)))))) 2 9,
      substr (toString36 (shd (stl (stl (stl (stl (stl (stl (stl (stl rs)))))))))) 2 9]"
  by (simp add: mount_def spawnTarget_def Let_def)

text \<open>
  C4, as the code has it. The identifier of a spawned target is cut from the string that
  the engine prints for one draw of the random source (from its third character, nine
  characters at most); the list of the live targets is not read, so the same draw gives
  the same identifier on any list, and the identifier is among those of the live targets
  exactly when that string is.
\<close>

theorem spawn_id_from_draw:
  "id' (fst (spawnTarget scn sens cur fp rs)) = substr (toString36 (shd rs)) 2 9
   \<and> id' (fst (spawnTarget scn sens cur fp rs)) = id' (fst (spawnTarget scn sens cur' fp rs))
   \<and> fst (snd (spawnTarget scn sens cur fp rs)) = cur @ [fst (spawnTarget scn sens cur fp rs)]
   \<and> (id' (fst (spawnTarget scn sens cur fp rs)) \<in> id' ` set cur) =
       (substr (toString36 (shd rs)) 2 9 \<in> id' ` set cur)"
  by (simp add: spawnTarget_id spawnTarget_list)

text \<open>The claim as it is worded fails on a random source that repeats a draw: mounting the
  gridshot scenario on the constant source gives three live targets with one identifier.\<close>

theorem spawn_id_collision:
  "map id' (targets (mount GRIDSHOT 1 (sconst halfDraw))) = [''i'', ''i'', ''i'']"
  by (simp add: mount_GRIDSHOT_ids halfDraw_def substr_def)

subsection \<open>A miss whose ray does not meet the projection plane\<close>

lemma checkHits_single:
  "checkHits cam [t] =
     \<lparr> hitFound = distToCenter cam t < radius t,
       hitTargetId = (if distToCenter cam t < radius t then id' t else []),
       closestTarget = Some t, minAngularDist = Some (angleToTarget cam t) \<rparr>"
  by (simp add: checkHits_def checkTarget_def Let_def)

lemma flickStart_level:
  "\<not> hitFound (checkHits levelCamera (targets flickStart))
   \<and> closestTarget (checkHits levelCamera (targets flickStart)) = Some (hd (targets flickStart))"
  by (simp add: flickStart_def checkHits_single)
     (simp add: distToCenter_def levelCamera_def distanceTo_def lengthSq_def Let_def)

lemma sidewaysRay_parallel:
  "dot (direction sidewaysRay) (worldDirection levelCamera) = 0
   \<and> intersectPlane sidewaysRay
       (setFromNormalAndCoplanarPoint (worldDirection levelCamera) (0, 2, - 10)) = None"
  by (simp add: sidewaysRay_def levelCamera_def intersectPlane_def distanceToPlane_def
        setFromNormalAndCoplanarPoint_def distanceToPoint_def Let_def)

lemma miss_with_target_has_offsets:
  assumes "\<not> hitFound (checkHits cam (targets g))" and "targets g \<noteq> []"
  shows "relativeX (last (shotDataRef (handleShoot scn sens cam r now g))) \<noteq> None
       \<and> relativeY (last (shotDataRef (handleShoot scn sens cam r now g))) \<noteq> None
       \<and> distanceFromCenter (last (shotDataRef (handleShoot scn sens cam r now g))) \<noteq> None
       \<and> targetVelocityX (last (shotDataRef (handleShoot scn sens cam r now g))) \<noteq> None"
proof -
  from checkHits_closest [OF assms(2), of cam] obtain ct where
    c: "closestTarget (checkHits cam (targets g)) = Some ct" by blast
  show ?thesis
    by (simp add: handleShoot_miss_target(1) [OF assms(1) c] missRecord_def Let_def)
qed

text \<open>
  C2 at a ray parallel to the projection plane. The camera looks along \<open>-z\<close>, the ray
  runs along \<open>x\<close>, the one target is missed and is the intended target; the ray does not
  meet the plane through the target, \<open>intersectPlane\<close> gives nothing, and the record that
  the shot appends carries all four offset fields, measured from the zero vector that
  \<open>intersection\<close> still holds.
\<close>

theorem parallel_ray_record:
  "dot (direction sidewaysRay) (worldDirection levelCamera) = 0
   \<and> intersectPlane sidewaysRay
       (setFromNormalAndCoplanarPoint (worldDirection levelCamera) (0, 2, - 10)) = None
   \<and> shotDataRef (handleShoot FLICKING 1 levelCamera sidewaysRay 100 flickStart) =
       [\<lparr> timestamp = 100, hit = False, targetId = None, relativeX = Some 0,
          relativeY = Some (- 2), distanceFromCenter = Some (sqrt 104),
          targetVelocityX = Some 0 \<rparr>]"
proof -
  have h: "\<not> hitFound (checkHits levelCamera (targets flickStart))"
    and c: "closestTarget (checkHits levelCamera (targets flickStart)) =
              Some (hd (targets flickStart))"
    using flickStart_level by simp_all
  have p: "position (hd (targets flickStart)) = (0, 2, - 10)"
    by (simp add: flickStart_def)
  have v: "fst (velocity (hd (targets flickStart))) = 0"
    by (simp add: flickStart_def)
  have e: "shotDataRef flickStart = []" by (simp add: flickStart_def)
  have "shotDataRef (handleShoot FLICKING 1 levelCamera sidewaysRay 100 flickStart) =
          [missRecord 100 levelCamera (0, 0, 0) (hd (targets flickStart))]"
    by (simp add: handleShoot_miss_target(1) [OF h c] p sidewaysRay_parallel e)
  moreover have "missRecord 100 levelCamera (0, 0, 0) (hd (targets flickStart)) =
       \<lparr> timestamp = 100, hit = False, targetId = None, relativeX = Some 0,
          relativeY = Some (- 2), distanceFromCenter = Some (sqrt 104),
          targetVelocityX = Some 0 \<rparr>"
    by (simp add: missRecord_def p v Let_def levelCamera_def length_v_def lengthSq_def)
  ultimately show ?thesis using sidewaysRay_parallel by simp
qed

text \<open>The same happens in play when the player has turned round: the ray is the view
  direction, the plane through the intended target lies behind the camera, and
  \<open>intersectPlane\<close> gives nothing.\<close>

lemma target_behind_record:
  "direction backRay = worldDirection backCamera
   \<and> intersectPlane backRay
       (setFromNormalAndCoplanarPoint (worldDirection backCamera) (0, 2, - 10)) = None
   \<and> shotDataRef (handleShoot FLICKING 1 backCamera backRay 100 flickStart) =
       [\<lparr> timestamp = 100, hit = False, targetId = None, relativeX = Some 0,
          relativeY = Some (- 2), distanceFromCenter = Some (sqrt 104),
          targetVelocityX = Some 0 \<rparr>]"
proof -
  have hc: "\<not> hitFound (checkHits backCamera (targets flickStart))
     \<and> closestTarget (checkHits backCamera (targets flickStart)) = Some (hd (targets flickStart))"
    by (simp add: flickStart_def checkHits_single)
       (simp add: distToCenter_def backCamera_def distanceTo_def lengthSq_def Let_def)
  then have h: "\<not> hitFound (checkHits backCamera (targets flickStart))"
    and c: "closestTarget (checkHits backCamera (targets flickStart)) =
              Some (hd (targets flickStart))"
    by simp_all
  have i: "direction backRay = worldDirection backCamera
     \<and> intersectPlane backRay
       (setFromNormalAndCoplanarPoint (worldDirection backCamera) (0, 2, - 10)) = None"
    by (simp add: backRay_def backCamera_def intersectPlane_def distanceToPlane_def
        setFromNormalAndCoplanarPoint_def distanceToPoint_def Let_def)
  have p: "position (hd (targets flickStart)) = (0, 2, - 10)"
    by (simp add: flickStart_def)
  have v: "fst (velocity (hd (targets flickStart))) = 0"
    by (simp add: flickStart_def)
  have e: "shotDataRef flickStart = []" by (simp add: flickStart_def)
  have "shotDataRef (handleShoot FLICKING 1 backCamera backRay 100 flickStart) =
          [missRecord 100 backCamera (0, 0, 0) (hd (targets flickStart))]"
    by (simp add: handleShoot_miss_target(1) [OF h c] p i e)
  moreover have "missRecord 100 backCamera (0, 0, 0) (hd (targets flickStart)) =
       \<lparr> timestamp = 100, hit = False, targetId = None, relativeX = Some 0,
          relativeY = Some (- 2), distanceFromCenter = Some (sqrt 104),
          targetVelocityX = Some 0 \<rparr>"
    by (simp add: missRecord_def p v Let_def backCamera_def length_v_def lengthSq_def)
  ultimately show ?thesis using i by simp
qed

end
